theory Spec2Isabelle
  imports Main
begin

section \<open>Strings\<close>

text \<open>
  A JavaScript string is a sequence of UTF-16 code units. The model covers the code units
  below 256 (the Latin-1 range, which holds every character of the component table, the
  alias table and the pattern table): a string is a \<open>char list\<close> and a \<open>char\<close> is read as
  the code unit with that number.
\<close>

definition isWhiteSpace :: "char \<Rightarrow> bool" where
  \<comment> \<open>the characters that \<open>String.prototype.trim\<close> strips and that the regular expression
     class \<open>\s\<close> matches: TAB, LF, VT, FF, CR, SPACE and NO-BREAK SPACE\<close>
  "isWhiteSpace c =
     (let n = (of_char c :: nat) in (9 \<le> n \<and> n \<le> 13) \<or> n = 32 \<or> n = 160)"

definition isUpperCase :: "char \<Rightarrow> bool" where
  \<comment> \<open>A to Z, and the upper-case letters of Latin-1: U+00C0 to U+00DE without the
     multiplication sign U+00D7\<close>
  "isUpperCase c =
     (let n = (of_char c :: nat)
      in (65 \<le> n \<and> n \<le> 90) \<or> (192 \<le> n \<and> n \<le> 222 \<and> n \<noteq> 215))"

definition toLowerChar :: "char \<Rightarrow> char" where
  \<comment> \<open>the lower-case letter of an upper-case one is 32 code units above it\<close>
  "toLowerChar c = (if isUpperCase c then char_of ((of_char c :: nat) + 32) else c)"

definition toLowerCase :: "string \<Rightarrow> string" where
  "toLowerCase s = map toLowerChar s"

definition trim :: "string \<Rightarrow> string" where
  "trim s = rev (dropWhile isWhiteSpace (rev (dropWhile isWhiteSpace s)))"

text \<open>
  \<open>startsWith s p\<close> is \<open>s.startsWith(p)\<close> and \<open>includes_str s p\<close> is
  \<open>s.includes(p)\<close>: \<open>p\<close> occurs in \<open>s\<close> as a contiguous substring. The empty string
  is a prefix and a substring of every string.
\<close>

fun startsWith :: "string \<Rightarrow> string \<Rightarrow> bool" where
  "startsWith s [] = True"
| "startsWith [] (p # ps) = False"
| "startsWith (c # cs) (p # ps) = (c = p \<and> startsWith cs ps)"

fun includes_str :: "string \<Rightarrow> string \<Rightarrow> bool" where
  "includes_str [] p = (p = [])"
| "includes_str (c # cs) p = (startsWith (c # cs) p \<or> includes_str cs p)"

section \<open>The component table\<close>

datatype Library = ShadcnUi | ShadcnAi | ShadcnButton | ShadcnText

record ComponentInfo =
  componentName :: string
  displayName :: string
  packageName :: string
  importStatement :: string
  usage :: string
  description :: string
  category :: string
  tags :: "string list"
  library :: "Library option"
  installCommand :: "string option"
  documentationUrl :: "string option"

text \<open>
  \<open>COMPONENT_LIBRARY\<close> is an object literal; its entries are listed here in source order,
  which is the order \<open>Object.values\<close> and \<open>Object.entries\<close> iterate in (no key is
  an array index). Each record is a constant of its own, named after its table key.
\<close>

definition button_info :: ComponentInfo where
  \<open>button_info = \<lparr>
     componentName = ''button'',
     displayName = ''Button'',
     packageName = ''@radix-ui/react-button'',
     importStatement = ''import { Button } from "@/components/ui/button"'',
     usage = ''<Button variant="default">Click me</Button>'',
     description = ''A versatile button component with multiple variants and sizes'',
     category = ''form'',
     tags = [''button'', ''click'', ''action'', ''primary'', ''secondary''],
     library = None,
     installCommand = None,
     documentationUrl = None \<rparr>\<close>

definition input_info :: ComponentInfo where
  \<open>input_info = \<lparr>
     componentName = ''input'',
     displayName = ''Input'',
     packageName = ''@radix-ui/react-input'',
     importStatement = ''import { Input } from "@/components/ui/input"'',
     usage = ''<Input placeholder="Enter text..." />'',
     description = ''A text input component for user input'',
     category = ''form'',
     tags = [''input'', ''text'', ''form'', ''field'', ''type''],
     library = None,
     installCommand = None,
     documentationUrl = None \<rparr>\<close>

definition textarea_info :: ComponentInfo where
  \<open>textarea_info = \<lparr>
     componentName = ''textarea'',
     displayName = ''Textarea'',
     packageName = ''@radix-ui/react-textarea'',
     importStatement = ''import { Textarea } from "@/components/ui/textarea"'',
     usage = ''<Textarea placeholder="Enter your message..." />'',
     description = ''A multi-line text input component'',
     category = ''form'',
     tags = [''textarea'', ''text'', ''multiline'', ''message'', ''comment''],
     library = None,
     installCommand = None,
     documentationUrl = None \<rparr>\<close>

definition select_info :: ComponentInfo where
  \<open>select_info = \<lparr>
     componentName = ''select'',
     displayName = ''Select'',
     packageName = ''@radix-ui/react-select'',
     importStatement = ''import { Select, SelectContent, SelectItem, SelectTrigger, SelectValue } from "@/components/ui/select"'',
     usage = ''<Select><SelectTrigger><SelectValue placeholder="Select option" /></SelectTrigger><SelectContent><SelectItem value="option1">Option 1</SelectItem></SelectContent></Select>'',
     description = ''A dropdown select component'',
     category = ''form'',
     tags = [''select'', ''dropdown'', ''option'', ''choice'', ''form''],
     library = None,
     installCommand = None,
     documentationUrl = None \<rparr>\<close>

definition checkbox_info :: ComponentInfo where
  \<open>checkbox_info = \<lparr>
     componentName = ''checkbox'',
     displayName = ''Checkbox'',
     packageName = ''@radix-ui/react-checkbox'',
     importStatement = ''import { Checkbox } from "@/components/ui/checkbox"'',
     usage = ''<Checkbox />'',
     description = ''A checkbox input component'',
     category = ''form'',
     tags = [''checkbox'', ''check'', ''form'', ''boolean'', ''toggle''],
     library = None,
     installCommand = None,
     documentationUrl = None \<rparr>\<close>

definition radio_info :: ComponentInfo where
  \<open>radio_info = \<lparr>
     componentName = ''radio-group'',
     displayName = ''Radio Group'',
     packageName = ''@radix-ui/react-radio-group'',
     importStatement = ''import { RadioGroup, RadioGroupItem } from "@/components/ui/radio-group"'',
     usage = ''<RadioGroup><RadioGroupItem value="option1" />Option 1</RadioGroup>'',
     description = ''A radio button group component'',
     category = ''form'',
     tags = [''radio'', ''group'', ''choice'', ''form'', ''option''],
     library = None,
     installCommand = None,
     documentationUrl = None \<rparr>\<close>

definition card_info :: ComponentInfo where
  \<open>card_info = \<lparr>
     componentName = ''card'',
     displayName = ''Card'',
     packageName = ''@radix-ui/react-card'',
     importStatement = ''import { Card, CardContent, CardHeader, CardTitle } from "@/components/ui/card"'',
     usage = ''<Card><CardHeader><CardTitle>Title</CardTitle></CardHeader><CardContent>Content</CardContent></Card>'',
     description = ''A flexible card component for content display'',
     category = ''layout'',
     tags = [''card'', ''container'', ''content'', ''panel'', ''box''],
     library = None,
     installCommand = None,
     documentationUrl = None \<rparr>\<close>

definition sheet_info :: ComponentInfo where
  \<open>sheet_info = \<lparr>
     componentName = ''sheet'',
     displayName = ''Sheet'',
     packageName = ''@radix-ui/react-dialog'',
     importStatement = ''import { Sheet, SheetContent, SheetHeader, SheetTitle, SheetTrigger } from "@/components/ui/sheet"'',
     usage = ''<Sheet><SheetTrigger>Open</SheetTrigger><SheetContent><SheetHeader><SheetTitle>Title</SheetTitle></SheetHeader></SheetContent></Sheet>'',
     description = ''A slide-out panel component'',
     category = ''layout'',
     tags = [''sheet'', ''panel'', ''drawer'', ''slide'', ''overlay''],
     library = None,
     installCommand = None,
     documentationUrl = None \<rparr>\<close>

definition dialog_info :: ComponentInfo where
  \<open>dialog_info = \<lparr>
     componentName = ''dialog'',
     displayName = ''Dialog'',
     packageName = ''@radix-ui/react-dialog'',
     importStatement = ''import { Dialog, DialogContent, DialogHeader, DialogTitle, DialogTrigger } from "@/components/ui/dialog"'',
     usage = ''<Dialog><DialogTrigger>Open</DialogTrigger><DialogContent><DialogHeader><DialogTitle>Title</DialogTitle></DialogHeader></DialogContent></Dialog>'',
     description = ''A modal dialog component'',
     category = ''layout'',
     tags = [''dialog'', ''modal'', ''popup'', ''overlay'', ''window''],
     library = None,
     installCommand = None,
     documentationUrl = None \<rparr>\<close>

definition popover_info :: ComponentInfo where
  \<open>popover_info = \<lparr>
     componentName = ''popover'',
     displayName = ''Popover'',
     packageName = ''@radix-ui/react-popover'',
     importStatement = ''import { Popover, PopoverContent, PopoverTrigger } from "@/components/ui/popover"'',
     usage = ''<Popover><PopoverTrigger>Open</PopoverTrigger><PopoverContent>Content</PopoverContent></Popover>'',
     description = ''A floating panel component'',
     category = ''layout'',
     tags = [''popover'', ''tooltip'', ''floating'', ''panel'', ''hover''],
     library = None,
     installCommand = None,
     documentationUrl = None \<rparr>\<close>

definition tabs_info :: ComponentInfo where
  \<open>tabs_info = \<lparr>
     componentName = ''tabs'',
     displayName = ''Tabs'',
     packageName = ''@radix-ui/react-tabs'',
     importStatement = ''import { Tabs, TabsContent, TabsList, TabsTrigger } from "@/components/ui/tabs"'',
     usage = ''<Tabs><TabsList><TabsTrigger value="tab1">Tab 1</TabsTrigger></TabsList><TabsContent value="tab1">Content</TabsContent></Tabs>'',
     description = ''A tabbed interface component'',
     category = ''navigation'',
     tags = [''tabs'', ''navigation'', ''menu'', ''switching'', ''panel''],
     library = None,
     installCommand = None,
     documentationUrl = None \<rparr>\<close>

definition accordion_info :: ComponentInfo where
  \<open>accordion_info = \<lparr>
     componentName = ''accordion'',
     displayName = ''Accordion'',
     packageName = ''@radix-ui/react-accordion'',
     importStatement = ''import { Accordion, AccordionContent, AccordionItem, AccordionTrigger } from "@/components/ui/accordion"'',
     usage = ''<Accordion><AccordionItem><AccordionTrigger>Title</AccordionTrigger><AccordionContent>Content</AccordionContent></AccordionItem></Accordion>'',
     description = ''A collapsible content component'',
     category = ''navigation'',
     tags = [''accordion'', ''collapse'', ''expand'', ''content'', ''faq''],
     library = None,
     installCommand = None,
     documentationUrl = None \<rparr>\<close>

definition breadcrumb_info :: ComponentInfo where
  \<open>breadcrumb_info = \<lparr>
     componentName = ''breadcrumb'',
     displayName = ''Breadcrumb'',
     packageName = ''@radix-ui/react-breadcrumb'',
     importStatement = ''import { Breadcrumb, BreadcrumbItem, BreadcrumbLink, BreadcrumbList, BreadcrumbPage, BreadcrumbSeparator } from "@/components/ui/breadcrumb"'',
     usage = ''<Breadcrumb><BreadcrumbList><BreadcrumbItem><BreadcrumbLink>Home</BreadcrumbLink></BreadcrumbItem><BreadcrumbSeparator /><BreadcrumbItem><BreadcrumbPage>Current</BreadcrumbPage></BreadcrumbItem></BreadcrumbList></Breadcrumb>'',
     description = ''A navigation breadcrumb component'',
     category = ''navigation'',
     tags = [''breadcrumb'', ''navigation'', ''path'', ''hierarchy'', ''location''],
     library = None,
     installCommand = None,
     documentationUrl = None \<rparr>\<close>

definition table_info :: ComponentInfo where
  \<open>table_info = \<lparr>
     componentName = ''table'',
     displayName = ''Table'',
     packageName = ''@radix-ui/react-table'',
     importStatement = ''import { Table, TableBody, TableCell, TableHead, TableHeader, TableRow } from "@/components/ui/table"'',
     usage = ''<Table><TableHeader><TableRow><TableHead>Header</TableHead></TableRow></TableHeader><TableBody><TableRow><TableCell>Cell</TableCell></TableRow></TableBody></Table>'',
     description = ''A data table component'',
     category = ''data'',
     tags = [''table'', ''data'', ''grid'', ''rows'', ''columns''],
     library = None,
     installCommand = None,
     documentationUrl = None \<rparr>\<close>

definition badge_info :: ComponentInfo where
  \<open>badge_info = \<lparr>
     componentName = ''badge'',
     displayName = ''Badge'',
     packageName = ''@radix-ui/react-badge'',
     importStatement = ''import { Badge } from "@/components/ui/badge"'',
     usage = ''<Badge variant="default">Badge</Badge>'',
     description = ''A small status indicator component'',
     category = ''data'',
     tags = [''badge'', ''label'', ''status'', ''indicator'', ''tag''],
     library = None,
     installCommand = None,
     documentationUrl = None \<rparr>\<close>

definition avatar_info :: ComponentInfo where
  \<open>avatar_info = \<lparr>
     componentName = ''avatar'',
     displayName = ''Avatar'',
     packageName = ''@radix-ui/react-avatar'',
     importStatement = ''import { Avatar, AvatarFallback, AvatarImage } from "@/components/ui/avatar"'',
     usage = ''<Avatar><AvatarImage src="/img.jpg" /><AvatarFallback>CN</AvatarFallback></Avatar>'',
     description = ''A user profile image component'',
     category = ''data'',
     tags = [''avatar'', ''profile'', ''image'', ''user'', ''picture''],
     library = None,
     installCommand = None,
     documentationUrl = None \<rparr>\<close>

definition progress_info :: ComponentInfo where
  \<open>progress_info = \<lparr>
     componentName = ''progress'',
     displayName = ''Progress'',
     packageName = ''@radix-ui/react-progress'',
     importStatement = ''import { Progress } from "@/components/ui/progress"'',
     usage = ''<Progress value={33} />'',
     description = ''A progress bar component'',
     category = ''data'',
     tags = [''progress'', ''bar'', ''loading'', ''percent'', ''status''],
     library = None,
     installCommand = None,
     documentationUrl = None \<rparr>\<close>

definition skeleton_info :: ComponentInfo where
  \<open>skeleton_info = \<lparr>
     componentName = ''skeleton'',
     displayName = ''Skeleton'',
     packageName = ''@radix-ui/react-skeleton'',
     importStatement = ''import { Skeleton } from "@/components/ui/skeleton"'',
     usage = ''<Skeleton className="h-4 w-[250px]" />'',
     description = ''A loading skeleton component'',
     category = ''data'',
     tags = [''skeleton'', ''loading'', ''placeholder'', ''shimmer'', ''wait''],
     library = None,
     installCommand = None,
     documentationUrl = None \<rparr>\<close>

definition alert_info :: ComponentInfo where
  \<open>alert_info = \<lparr>
     componentName = ''alert'',
     displayName = ''Alert'',
     packageName = ''@radix-ui/react-alert'',
     importStatement = ''import { Alert, AlertDescription, AlertTitle } from "@/components/ui/alert"'',
     usage = ''<Alert><AlertTitle>Title</AlertTitle><AlertDescription>Description</AlertDescription></Alert>'',
     description = ''An alert notification component'',
     category = ''feedback'',
     tags = [''alert'', ''notification'', ''message'', ''warning'', ''info''],
     library = None,
     installCommand = None,
     documentationUrl = None \<rparr>\<close>

definition toast_info :: ComponentInfo where
  \<open>toast_info = \<lparr>
     componentName = ''toast'',
     displayName = ''Toast'',
     packageName = ''@radix-ui/react-toast'',
     importStatement = ''import { Toast, ToastAction, ToastClose, ToastDescription, ToastTitle } from "@/components/ui/toast"'',
     usage = ''<Toast><ToastTitle>Title</ToastTitle><ToastDescription>Description</ToastDescription><ToastAction>Action</ToastAction><ToastClose /></Toast>'',
     description = ''A toast notification component'',
     category = ''feedback'',
     tags = [''toast'', ''notification'', ''message'', ''popup'', ''temporary''],
     library = None,
     installCommand = None,
     documentationUrl = None \<rparr>\<close>

definition separator_info :: ComponentInfo where
  \<open>separator_info = \<lparr>
     componentName = ''separator'',
     displayName = ''Separator'',
     packageName = ''@radix-ui/react-separator'',
     importStatement = ''import { Separator } from "@/components/ui/separator"'',
     usage = ''<Separator />'',
     description = ''A visual separator component'',
     category = ''feedback'',
     tags = [''separator'', ''divider'', ''line'', ''border'', ''split''],
     library = None,
     installCommand = None,
     documentationUrl = None \<rparr>\<close>

definition label_info :: ComponentInfo where
  \<open>label_info = \<lparr>
     componentName = ''label'',
     displayName = ''Label'',
     packageName = ''@radix-ui/react-label'',
     importStatement = ''import { Label } from "@/components/ui/label"'',
     usage = ''<Label htmlFor="email">Email</Label>'',
     description = ''A form label component with accessibility support'',
     category = ''form'',
     tags = [''label'', ''form'', ''text'', ''field'', ''accessibility''],
     library = None,
     installCommand = None,
     documentationUrl = None \<rparr>\<close>

definition form_info :: ComponentInfo where
  \<open>form_info = \<lparr>
     componentName = ''form'',
     displayName = ''Form'',
     packageName = ''react-hook-form'',
     importStatement = ''import { Form, FormControl, FormField, FormItem, FormLabel, FormMessage } from "@/components/ui/form"'',
     usage = ''<Form {...form}><FormField control={form.control} name="username" render={({ field }) => (<FormItem><FormLabel>Username</FormLabel><FormControl><Input {...field} /></FormControl></FormItem>)} /></Form>'',
     description = ''Form component with React Hook Form integration'',
     category = ''form'',
     tags = [''form'', ''validation'', ''react-hook-form'', ''input'', ''submit''],
     library = None,
     installCommand = None,
     documentationUrl = None \<rparr>\<close>

definition switch_info :: ComponentInfo where
  \<open>switch_info = \<lparr>
     componentName = ''switch'',
     displayName = ''Switch'',
     packageName = ''@radix-ui/react-switch'',
     importStatement = ''import { Switch } from "@/components/ui/switch"'',
     usage = ''<Switch checked={enabled} onCheckedChange={setEnabled} />'',
     description = ''A toggle switch component for binary choices'',
     category = ''form'',
     tags = [''switch'', ''toggle'', ''boolean'', ''on'', ''off''],
     library = None,
     installCommand = None,
     documentationUrl = None \<rparr>\<close>

definition slider_info :: ComponentInfo where
  \<open>slider_info = \<lparr>
     componentName = ''slider'',
     displayName = ''Slider'',
     packageName = ''@radix-ui/react-slider'',
     importStatement = ''import { Slider } from "@/components/ui/slider"'',
     usage = ''<Slider defaultValue={[50]} max={100} step={1} />'',
     description = ''A slider input component for selecting values from a range'',
     category = ''form'',
     tags = [''slider'', ''range'', ''input'', ''value'', ''adjust''],
     library = None,
     installCommand = None,
     documentationUrl = None \<rparr>\<close>

definition combobox_info :: ComponentInfo where
  \<open>combobox_info = \<lparr>
     componentName = ''combobox'',
     displayName = ''Combobox'',
     packageName = ''@radix-ui/react-combobox'',
     importStatement = ''import { Combobox } from "@/components/ui/combobox"'',
     usage = ''<Combobox value={value} onValueChange={setValue} />'',
     description = ''A combobox component with search and autocomplete'',
     category = ''form'',
     tags = [''combobox'', ''autocomplete'', ''search'', ''select'', ''dropdown''],
     library = None,
     installCommand = None,
     documentationUrl = None \<rparr>\<close>

definition toggle_info :: ComponentInfo where
  \<open>toggle_info = \<lparr>
     componentName = ''toggle'',
     displayName = ''Toggle'',
     packageName = ''@radix-ui/react-toggle'',
     importStatement = ''import { Toggle } from "@/components/ui/toggle"'',
     usage = ''<Toggle aria-label="Toggle italic"><Italic /></Toggle>'',
     description = ''A toggle button component with pressed state'',
     category = ''form'',
     tags = [''toggle'', ''button'', ''pressed'', ''state'', ''icon''],
     library = None,
     installCommand = None,
     documentationUrl = None \<rparr>\<close>

definition toggle_group_info :: ComponentInfo where
  \<open>toggle_group_info = \<lparr>
     componentName = ''toggle-group'',
     displayName = ''Toggle Group'',
     packageName = ''@radix-ui/react-toggle-group'',
     importStatement = ''import { ToggleGroup, ToggleGroupItem } from "@/components/ui/toggle-group"'',
     usage = ''<ToggleGroup type="single"><ToggleGroupItem value="a">A</ToggleGroupItem></ToggleGroup>'',
     description = ''A group of toggle buttons for multiple or single selection'',
     category = ''form'',
     tags = [''toggle'', ''group'', ''buttons'', ''selection'', ''multiple''],
     library = None,
     installCommand = None,
     documentationUrl = None \<rparr>\<close>

definition input_otp_info :: ComponentInfo where
  \<open>input_otp_info = \<lparr>
     componentName = ''input-otp'',
     displayName = ''Input OTP'',
     packageName = ''@radix-ui/react-input-otp'',
     importStatement = ''import { InputOTP, InputOTPGroup, InputOTPSlot } from "@/components/ui/input-otp"'',
     usage = ''<InputOTP maxLength={6}><InputOTPGroup><InputOTPSlot index={0} /></InputOTPGroup></InputOTP>'',
     description = ''One-time password input component'',
     category = ''form'',
     tags = [''otp'', ''password'', ''verification'', ''code'', ''security''],
     library = None,
     installCommand = None,
     documentationUrl = None \<rparr>\<close>

definition collapsible_info :: ComponentInfo where
  \<open>collapsible_info = \<lparr>
     componentName = ''collapsible'',
     displayName = ''Collapsible'',
     packageName = ''@radix-ui/react-collapsible'',
     importStatement = ''import { Collapsible, CollapsibleContent, CollapsibleTrigger } from "@/components/ui/collapsible"'',
     usage = ''<Collapsible><CollapsibleTrigger>Toggle</CollapsibleTrigger><CollapsibleContent>Content</CollapsibleContent></Collapsible>'',
     description = ''A collapsible container component'',
     category = ''layout'',
     tags = [''collapsible'', ''collapse'', ''expand'', ''toggle'', ''content''],
     library = None,
     installCommand = None,
     documentationUrl = None \<rparr>\<close>

definition resizable_info :: ComponentInfo where
  \<open>resizable_info = \<lparr>
     componentName = ''resizable'',
     displayName = ''Resizable'',
     packageName = ''react-resizable-panels'',
     importStatement = ''import { ResizableHandle, ResizablePanel, ResizablePanelGroup } from "@/components/ui/resizable"'',
     usage = ''<ResizablePanelGroup direction="horizontal"><ResizablePanel>Panel 1</ResizablePanel><ResizableHandle /><ResizablePanel>Panel 2</ResizablePanel></ResizablePanelGroup>'',
     description = ''Resizable panel layout component'',
     category = ''layout'',
     tags = [''resizable'', ''panel'', ''layout'', ''split'', ''drag''],
     library = None,
     installCommand = None,
     documentationUrl = None \<rparr>\<close>

definition scroll_area_info :: ComponentInfo where
  \<open>scroll_area_info = \<lparr>
     componentName = ''scroll-area'',
     displayName = ''Scroll Area'',
     packageName = ''@radix-ui/react-scroll-area'',
     importStatement = ''import { ScrollArea } from "@/components/ui/scroll-area"'',
     usage = ''<ScrollArea className="h-72 w-48"><div>Content</div></ScrollArea>'',
     description = ''A custom styled scrollable area'',
     category = ''layout'',
     tags = [''scroll'', ''overflow'', ''scrollbar'', ''content'', ''area''],
     library = None,
     installCommand = None,
     documentationUrl = None \<rparr>\<close>

definition aspect_ratio_info :: ComponentInfo where
  \<open>aspect_ratio_info = \<lparr>
     componentName = ''aspect-ratio'',
     displayName = ''Aspect Ratio'',
     packageName = ''@radix-ui/react-aspect-ratio'',
     importStatement = ''import { AspectRatio } from "@/components/ui/aspect-ratio"'',
     usage = ''<AspectRatio ratio={16 / 9}><img src="image.jpg" /></AspectRatio>'',
     description = ''A container that maintains aspect ratio'',
     category = ''layout'',
     tags = [''aspect-ratio'', ''responsive'', ''image'', ''video'', ''ratio''],
     library = None,
     installCommand = None,
     documentationUrl = None \<rparr>\<close>

definition navigation_menu_info :: ComponentInfo where
  \<open>navigation_menu_info = \<lparr>
     componentName = ''navigation-menu'',
     displayName = ''Navigation Menu'',
     packageName = ''@radix-ui/react-navigation-menu'',
     importStatement = ''import { NavigationMenu, NavigationMenuContent, NavigationMenuItem, NavigationMenuLink, NavigationMenuList, NavigationMenuTrigger } from "@/components/ui/navigation-menu"'',
     usage = ''<NavigationMenu><NavigationMenuList><NavigationMenuItem><NavigationMenuTrigger>Item</NavigationMenuTrigger><NavigationMenuContent>Content</NavigationMenuContent></NavigationMenuItem></NavigationMenuList></NavigationMenu>'',
     description = ''A complex navigation menu with dropdowns'',
     category = ''navigation'',
     tags = [''navigation'', ''menu'', ''dropdown'', ''nav'', ''header''],
     library = None,
     installCommand = None,
     documentationUrl = None \<rparr>\<close>

definition menubar_info :: ComponentInfo where
  \<open>menubar_info = \<lparr>
     componentName = ''menubar'',
     displayName = ''Menubar'',
     packageName = ''@radix-ui/react-menubar'',
     importStatement = ''import { Menubar, MenubarContent, MenubarItem, MenubarMenu, MenubarTrigger } from "@/components/ui/menubar"'',
     usage = ''<Menubar><MenubarMenu><MenubarTrigger>File</MenubarTrigger><MenubarContent><MenubarItem>New</MenubarItem></MenubarContent></MenubarMenu></Menubar>'',
     description = ''A menubar component like desktop applications'',
     category = ''navigation'',
     tags = [''menubar'', ''menu'', ''desktop'', ''navigation'', ''toolbar''],
     library = None,
     installCommand = None,
     documentationUrl = None \<rparr>\<close>

definition command_info :: ComponentInfo where
  \<open>command_info = \<lparr>
     componentName = ''command'',
     displayName = ''Command'',
     packageName = ''cmdk'',
     importStatement = ''import { Command, CommandDialog, CommandEmpty, CommandGroup, CommandInput, CommandItem, CommandList } from "@/components/ui/command"'',
     usage = ''<Command><CommandInput placeholder="Search..." /><CommandList><CommandGroup><CommandItem>Item</CommandItem></CommandGroup></CommandList></Command>'',
     description = ''A command palette component for keyboard-first navigation'',
     category = ''navigation'',
     tags = [''command'', ''palette'', ''search'', ''keyboard'', ''cmdk''],
     library = None,
     installCommand = None,
     documentationUrl = None \<rparr>\<close>

definition context_menu_info :: ComponentInfo where
  \<open>context_menu_info = \<lparr>
     componentName = ''context-menu'',
     displayName = ''Context Menu'',
     packageName = ''@radix-ui/react-context-menu'',
     importStatement = ''import { ContextMenu, ContextMenuContent, ContextMenuItem, ContextMenuTrigger } from "@/components/ui/context-menu"'',
     usage = ''<ContextMenu><ContextMenuTrigger>Right click</ContextMenuTrigger><ContextMenuContent><ContextMenuItem>Item</ContextMenuItem></ContextMenuContent></ContextMenu>'',
     description = ''A context menu triggered by right-click'',
     category = ''navigation'',
     tags = [''context-menu'', ''right-click'', ''menu'', ''popup'', ''actions''],
     library = None,
     installCommand = None,
     documentationUrl = None \<rparr>\<close>

definition dropdown_menu_info :: ComponentInfo where
  \<open>dropdown_menu_info = \<lparr>
     componentName = ''dropdown-menu'',
     displayName = ''Dropdown Menu'',
     packageName = ''@radix-ui/react-dropdown-menu'',
     importStatement = ''import { DropdownMenu, DropdownMenuContent, DropdownMenuItem, DropdownMenuTrigger } from "@/components/ui/dropdown-menu"'',
     usage = ''<DropdownMenu><DropdownMenuTrigger>Open</DropdownMenuTrigger><DropdownMenuContent><DropdownMenuItem>Item</DropdownMenuItem></DropdownMenuContent></DropdownMenu>'',
     description = ''A dropdown menu component'',
     category = ''navigation'',
     tags = [''dropdown'', ''menu'', ''actions'', ''popup'', ''select''],
     library = None,
     installCommand = None,
     documentationUrl = None \<rparr>\<close>

definition pagination_info :: ComponentInfo where
  \<open>pagination_info = \<lparr>
     componentName = ''pagination'',
     displayName = ''Pagination'',
     packageName = ''@radix-ui/react-pagination'',
     importStatement = ''import { Pagination, PaginationContent, PaginationItem, PaginationLink, PaginationNext, PaginationPrevious } from "@/components/ui/pagination"'',
     usage = ''<Pagination><PaginationContent><PaginationItem><PaginationPrevious /></PaginationItem></PaginationContent></Pagination>'',
     description = ''A pagination component for navigating pages'',
     category = ''navigation'',
     tags = [''pagination'', ''pages'', ''navigation'', ''next'', ''previous''],
     library = None,
     installCommand = None,
     documentationUrl = None \<rparr>\<close>

definition calendar_info :: ComponentInfo where
  \<open>calendar_info = \<lparr>
     componentName = ''calendar'',
     displayName = ''Calendar'',
     packageName = ''react-day-picker'',
     importStatement = ''import { Calendar } from "@/components/ui/calendar"'',
     usage = ''<Calendar mode="single" selected={date} onSelect={setDate} />'',
     description = ''A calendar component for date selection'',
     category = ''data'',
     tags = [''calendar'', ''date'', ''picker'', ''schedule'', ''time''],
     library = None,
     installCommand = None,
     documentationUrl = None \<rparr>\<close>

definition date_picker_info :: ComponentInfo where
  \<open>date_picker_info = \<lparr>
     componentName = ''date-picker'',
     displayName = ''Date Picker'',
     packageName = ''react-day-picker'',
     importStatement = ''import { DatePicker } from "@/components/ui/date-picker"'',
     usage = ''<DatePicker date={date} setDate={setDate} />'',
     description = ''A date picker component with calendar'',
     category = ''data'',
     tags = [''date'', ''picker'', ''calendar'', ''input'', ''select''],
     library = None,
     installCommand = None,
     documentationUrl = None \<rparr>\<close>

definition hover_card_info :: ComponentInfo where
  \<open>hover_card_info = \<lparr>
     componentName = ''hover-card'',
     displayName = ''Hover Card'',
     packageName = ''@radix-ui/react-hover-card'',
     importStatement = ''import { HoverCard, HoverCardContent, HoverCardTrigger } from "@/components/ui/hover-card"'',
     usage = ''<HoverCard><HoverCardTrigger>Hover</HoverCardTrigger><HoverCardContent>Content</HoverCardContent></HoverCard>'',
     description = ''A card that appears on hover'',
     category = ''data'',
     tags = [''hover'', ''card'', ''tooltip'', ''popup'', ''preview''],
     library = None,
     installCommand = None,
     documentationUrl = None \<rparr>\<close>

definition carousel_info :: ComponentInfo where
  \<open>carousel_info = \<lparr>
     componentName = ''carousel'',
     displayName = ''Carousel'',
     packageName = ''embla-carousel-react'',
     importStatement = ''import { Carousel, CarouselContent, CarouselItem, CarouselNext, CarouselPrevious } from "@/components/ui/carousel"'',
     usage = ''<Carousel><CarouselContent><CarouselItem>Item</CarouselItem></CarouselContent></Carousel>'',
     description = ''A carousel component for sliding content'',
     category = ''data'',
     tags = [''carousel'', ''slider'', ''images'', ''gallery'', ''slides''],
     library = None,
     installCommand = None,
     documentationUrl = None \<rparr>\<close>

definition tooltip_info :: ComponentInfo where
  \<open>tooltip_info = \<lparr>
     componentName = ''tooltip'',
     displayName = ''Tooltip'',
     packageName = ''@radix-ui/react-tooltip'',
     importStatement = ''import { Tooltip, TooltipContent, TooltipProvider, TooltipTrigger } from "@/components/ui/tooltip"'',
     usage = ''<TooltipProvider><Tooltip><TooltipTrigger>Hover</TooltipTrigger><TooltipContent>Content</TooltipContent></Tooltip></TooltipProvider>'',
     description = ''A tooltip component for hover information'',
     category = ''data'',
     tags = [''tooltip'', ''hover'', ''info'', ''help'', ''hint''],
     library = None,
     installCommand = None,
     documentationUrl = None \<rparr>\<close>

definition sonner_info :: ComponentInfo where
  \<open>sonner_info = \<lparr>
     componentName = ''sonner'',
     displayName = ''Sonner'',
     packageName = ''sonner'',
     importStatement = ''import { toast } from "sonner"'',
     usage = ''toast("Event has been created")'',
     description = ''An alternative toast notification component'',
     category = ''feedback'',
     tags = [''toast'', ''notification'', ''sonner'', ''alert'', ''message''],
     library = None,
     installCommand = None,
     documentationUrl = None \<rparr>\<close>

definition ai_actions_info :: ComponentInfo where
  \<open>ai_actions_info = \<lparr>
     componentName = ''ai-actions'',
     displayName = ''AI Actions'',
     packageName = ''shadcn-ai'',
     importStatement = ''import { Actions, Action } from "@/components/ai/actions"'',
     usage = ''<Actions><Action label="Copy">Copy</Action></Actions>'',
     description = ''Interactive AI action buttons for React chat interfaces with tooltips and shadcn/ui styling'',
     category = ''ai'',
     tags = [''ai'', ''chat'', ''actions'', ''buttons'', ''interactive''],
     library = Some ShadcnAi,
     installCommand = Some ''npx shadcn@latest add https://www.shadcn.io/registry/ai.json'',
     documentationUrl = Some ''https://www.shadcn.io/ai/actions'' \<rparr>\<close>

definition ai_branch_info :: ComponentInfo where
  \<open>ai_branch_info = \<lparr>
     componentName = ''ai-branch'',
     displayName = ''AI Branch'',
     packageName = ''shadcn-ai'',
     importStatement = ''import { Branch } from "@/components/ai/branch"'',
     usage = ''<Branch responses={responses} onSelect={handleSelect} />'',
     description = ''Branch between AI response variations like ChatGPT for exploring multiple answers'',
     category = ''ai'',
     tags = [''ai'', ''branch'', ''variations'', ''chatgpt'', ''responses''],
     library = Some ShadcnAi,
     installCommand = Some ''npx shadcn@latest add https://www.shadcn.io/registry/ai.json'',
     documentationUrl = Some ''https://www.shadcn.io/ai/branch'' \<rparr>\<close>

definition ai_code_block_info :: ComponentInfo where
  \<open>ai_code_block_info = \<lparr>
     componentName = ''ai-code-block'',
     displayName = ''AI Code Block'',
     packageName = ''shadcn-ai'',
     importStatement = ''import { AICodeBlock } from "@/components/ai/code-block"'',
     usage = ''<AICodeBlock code={code} language="typescript" />'',
     description = ''Syntax-highlighted code blocks with copy buttons for AI responses'',
     category = ''ai'',
     tags = [''ai'', ''code'', ''syntax'', ''highlight'', ''copy''],
     library = Some ShadcnAi,
     installCommand = Some ''npx shadcn@latest add https://www.shadcn.io/registry/ai.json'',
     documentationUrl = Some ''https://www.shadcn.io/ai/code-block'' \<rparr>\<close>

definition ai_conversation_info :: ComponentInfo where
  \<open>ai_conversation_info = \<lparr>
     componentName = ''ai-conversation'',
     displayName = ''AI Conversation'',
     packageName = ''shadcn-ai'',
     importStatement = ''import { AIConversation } from "@/components/ai/conversation"'',
     usage = ''<AIConversation messages={messages} />'',
     description = ''Auto-scrolling chat container for smooth AI conversations'',
     category = ''ai'',
     tags = [''ai'', ''chat'', ''conversation'', ''scroll'', ''streaming''],
     library = Some ShadcnAi,
     installCommand = Some ''npx shadcn@latest add https://www.shadcn.io/registry/ai.json'',
     documentationUrl = Some ''https://www.shadcn.io/ai/conversation'' \<rparr>\<close>

definition ai_image_info :: ComponentInfo where
  \<open>ai_image_info = \<lparr>
     componentName = ''ai-image'',
     displayName = ''AI Image'',
     packageName = ''shadcn-ai'',
     importStatement = ''import { AIImage } from "@/components/ai/image"'',
     usage = ''<AIImage src={imageUrl} alt="Generated image" />'',
     description = ''Display AI-generated images with loading states and error handling'',
     category = ''ai'',
     tags = [''ai'', ''image'', ''dalle'', ''midjourney'', ''generated''],
     library = Some ShadcnAi,
     installCommand = Some ''npx shadcn@latest add https://www.shadcn.io/registry/ai.json'',
     documentationUrl = Some ''https://www.shadcn.io/ai/image'' \<rparr>\<close>

definition ai_inline_citation_info :: ComponentInfo where
  \<open>ai_inline_citation_info = \<lparr>
     componentName = ''ai-inline-citation'',
     displayName = ''AI Inline Citation'',
     packageName = ''shadcn-ai'',
     importStatement = ''import { AIInlineCitation } from "@/components/ai/inline-citation"'',
     usage = ''<AIInlineCitation source={source} />'',
     description = ''Inline citations with hover previews like Perplexity AI'',
     category = ''ai'',
     tags = [''ai'', ''citation'', ''perplexity'', ''sources'', ''references''],
     library = Some ShadcnAi,
     installCommand = Some ''npx shadcn@latest add https://www.shadcn.io/registry/ai.json'',
     documentationUrl = Some ''https://www.shadcn.io/ai/inline-citation'' \<rparr>\<close>

definition ai_loader_info :: ComponentInfo where
  \<open>ai_loader_info = \<lparr>
     componentName = ''ai-loader'',
     displayName = ''AI Loader'',
     packageName = ''shadcn-ai'',
     importStatement = ''import { AILoader } from "@/components/ai/loader"'',
     usage = ''<AILoader />'',
     description = ''Animated loader for AI streaming responses showing AI is thinking'',
     category = ''ai'',
     tags = [''ai'', ''loader'', ''streaming'', ''thinking'', ''animation''],
     library = Some ShadcnAi,
     installCommand = Some ''npx shadcn@latest add https://www.shadcn.io/registry/ai.json'',
     documentationUrl = Some ''https://www.shadcn.io/ai/loader'' \<rparr>\<close>

definition ai_message_info :: ComponentInfo where
  \<open>ai_message_info = \<lparr>
     componentName = ''ai-message'',
     displayName = ''AI Message'',
     packageName = ''shadcn-ai'',
     importStatement = ''import { AIMessage } from "@/components/ai/message"'',
     usage = ''<AIMessage role="assistant" content="Hello!" />'',
     description = ''Chat messages with avatars distinguishing user from AI'',
     category = ''ai'',
     tags = [''ai'', ''message'', ''chat'', ''avatar'', ''conversation''],
     library = Some ShadcnAi,
     installCommand = Some ''npx shadcn@latest add https://www.shadcn.io/registry/ai.json'',
     documentationUrl = Some ''https://www.shadcn.io/ai/message'' \<rparr>\<close>

definition ai_prompt_input_info :: ComponentInfo where
  \<open>ai_prompt_input_info = \<lparr>
     componentName = ''ai-prompt-input'',
     displayName = ''AI Prompt Input'',
     packageName = ''shadcn-ai'',
     importStatement = ''import { AIPromptInput } from "@/components/ai/prompt-input"'',
     usage = ''<AIPromptInput onSubmit={handleSubmit} />'',
     description = ''ChatGPT-style input with auto-resize and model selector'',
     category = ''ai'',
     tags = [''ai'', ''input'', ''prompt'', ''chatgpt'', ''textarea''],
     library = Some ShadcnAi,
     installCommand = Some ''npx shadcn@latest add https://www.shadcn.io/registry/ai.json'',
     documentationUrl = Some ''https://www.shadcn.io/ai/prompt-input'' \<rparr>\<close>

definition ai_reasoning_info :: ComponentInfo where
  \<open>ai_reasoning_info = \<lparr>
     componentName = ''ai-reasoning'',
     displayName = ''AI Reasoning'',
     packageName = ''shadcn-ai'',
     importStatement = ''import { AIReasoning } from "@/components/ai/reasoning"'',
     usage = ''<AIReasoning content={reasoning} />'',
     description = ''Show AI thinking process like Claude's thinking blocks'',
     category = ''ai'',
     tags = [''ai'', ''reasoning'', ''thinking'', ''claude'', ''process''],
     library = Some ShadcnAi,
     installCommand = Some ''npx shadcn@latest add https://www.shadcn.io/registry/ai.json'',
     documentationUrl = Some ''https://www.shadcn.io/ai/reasoning'' \<rparr>\<close>

definition ai_response_info :: ComponentInfo where
  \<open>ai_response_info = \<lparr>
     componentName = ''ai-response'',
     displayName = ''AI Response'',
     packageName = ''shadcn-ai'',
     importStatement = ''import { AIResponse } from "@/components/ai/response"'',
     usage = ''<AIResponse content={markdown} />'',
     description = ''Markdown renderer optimized for streaming AI responses'',
     category = ''ai'',
     tags = [''ai'', ''response'', ''markdown'', ''streaming'', ''render''],
     library = Some ShadcnAi,
     installCommand = Some ''npx shadcn@latest add https://www.shadcn.io/registry/ai.json'',
     documentationUrl = Some ''https://www.shadcn.io/ai/response'' \<rparr>\<close>

definition ai_sources_info :: ComponentInfo where
  \<open>ai_sources_info = \<lparr>
     componentName = ''ai-sources'',
     displayName = ''AI Sources'',
     packageName = ''shadcn-ai'',
     importStatement = ''import { AISources } from "@/components/ai/sources"'',
     usage = ''<AISources sources={sources} />'',
     description = ''Expandable source citations like Perplexity's used sources'',
     category = ''ai'',
     tags = [''ai'', ''sources'', ''citations'', ''perplexity'', ''references''],
     library = Some ShadcnAi,
     installCommand = Some ''npx shadcn@latest add https://www.shadcn.io/registry/ai.json'',
     documentationUrl = Some ''https://www.shadcn.io/ai/sources'' \<rparr>\<close>

definition ai_suggestion_info :: ComponentInfo where
  \<open>ai_suggestion_info = \<lparr>
     componentName = ''ai-suggestion'',
     displayName = ''AI Suggestion'',
     packageName = ''shadcn-ai'',
     importStatement = ''import { AISuggestion } from "@/components/ai/suggestion"'',
     usage = ''<AISuggestion suggestions={suggestions} onSelect={handleSelect} />'',
     description = ''Suggestion chips like ChatGPT's follow-up prompts'',
     category = ''ai'',
     tags = [''ai'', ''suggestions'', ''chips'', ''chatgpt'', ''prompts''],
     library = Some ShadcnAi,
     installCommand = Some ''npx shadcn@latest add https://www.shadcn.io/registry/ai.json'',
     documentationUrl = Some ''https://www.shadcn.io/ai/suggestion'' \<rparr>\<close>

definition ai_task_info :: ComponentInfo where
  \<open>ai_task_info = \<lparr>
     componentName = ''ai-task'',
     displayName = ''AI Task'',
     packageName = ''shadcn-ai'',
     importStatement = ''import { AITask } from "@/components/ai/task"'',
     usage = ''<AITask tasks={tasks} />'',
     description = ''Task lists showing AI's work progress like Claude Artifacts'',
     category = ''ai'',
     tags = [''ai'', ''task'', ''progress'', ''claude'', ''artifacts''],
     library = Some ShadcnAi,
     installCommand = Some ''npx shadcn@latest add https://www.shadcn.io/registry/ai.json'',
     documentationUrl = Some ''https://www.shadcn.io/ai/task'' \<rparr>\<close>

definition ai_tool_info :: ComponentInfo where
  \<open>ai_tool_info = \<lparr>
     componentName = ''ai-tool'',
     displayName = ''AI Tool'',
     packageName = ''shadcn-ai'',
     importStatement = ''import { AITool } from "@/components/ai/tool"'',
     usage = ''<AITool tool={toolCall} />'',
     description = ''Display AI function calls like OpenAI's tool use'',
     category = ''ai'',
     tags = [''ai'', ''tool'', ''function'', ''openai'', ''calls''],
     library = Some ShadcnAi,
     installCommand = Some ''npx shadcn@latest add https://www.shadcn.io/registry/ai.json'',
     documentationUrl = Some ''https://www.shadcn.io/ai/tool'' \<rparr>\<close>

definition ai_web_preview_info :: ComponentInfo where
  \<open>ai_web_preview_info = \<lparr>
     componentName = ''ai-web-preview'',
     displayName = ''AI Web Preview'',
     packageName = ''shadcn-ai'',
     importStatement = ''import { AIWebPreview } from "@/components/ai/web-preview"'',
     usage = ''<AIWebPreview url={generatedUrl} />'',
     description = ''Preview AI-generated websites like v0.dev's live viewer'',
     category = ''ai'',
     tags = [''ai'', ''preview'', ''website'', ''v0'', ''iframe''],
     library = Some ShadcnAi,
     installCommand = Some ''npx shadcn@latest add https://www.shadcn.io/registry/ai.json'',
     documentationUrl = Some ''https://www.shadcn.io/ai/web-preview'' \<rparr>\<close>

definition glow_button_info :: ComponentInfo where
  \<open>glow_button_info = \<lparr>
     componentName = ''glow-button'',
     displayName = ''Glow Button'',
     packageName = ''shadcn-button'',
     importStatement = ''import { GlowButton } from "@/components/button/glow-button"'',
     usage = ''<GlowButton>Click me</GlowButton>'',
     description = ''Button with animated glow effect and neon styling'',
     category = ''advanced-button'',
     tags = [''button'', ''glow'', ''neon'', ''animated'', ''effect''],
     library = Some ShadcnButton,
     installCommand = None,
     documentationUrl = Some ''https://www.shadcn.io/button/glow-button'' \<rparr>\<close>

definition shimmer_button_info :: ComponentInfo where
  \<open>shimmer_button_info = \<lparr>
     componentName = ''shimmer-button'',
     displayName = ''Shimmer Button'',
     packageName = ''shadcn-button'',
     importStatement = ''import { ShimmerButton } from "@/components/button/shimmer-button"'',
     usage = ''<ShimmerButton>Click me</ShimmerButton>'',
     description = ''Button with shimmer animation effect'',
     category = ''advanced-button'',
     tags = [''button'', ''shimmer'', ''shine'', ''animated'', ''effect''],
     library = Some ShadcnButton,
     installCommand = None,
     documentationUrl = Some ''https://www.shadcn.io/button/shimmer-button'' \<rparr>\<close>

definition magnetic_button_info :: ComponentInfo where
  \<open>magnetic_button_info = \<lparr>
     componentName = ''magnetic-button'',
     displayName = ''Magnetic Button'',
     packageName = ''shadcn-button'',
     importStatement = ''import { MagneticButton } from "@/components/button/magnetic-button"'',
     usage = ''<MagneticButton>Click me</MagneticButton>'',
     description = ''Button with magnetic hover effect that follows cursor'',
     category = ''advanced-button'',
     tags = [''button'', ''magnetic'', ''hover'', ''cursor'', ''interactive''],
     library = Some ShadcnButton,
     installCommand = None,
     documentationUrl = Some ''https://www.shadcn.io/button/magnetic-button'' \<rparr>\<close>

definition pulse_button_info :: ComponentInfo where
  \<open>pulse_button_info = \<lparr>
     componentName = ''pulse-button'',
     displayName = ''Pulse Button'',
     packageName = ''shadcn-button'',
     importStatement = ''import { PulseButton } from "@/components/button/pulse-button"'',
     usage = ''<PulseButton>Click me</PulseButton>'',
     description = ''Button with pulsing animation effect'',
     category = ''advanced-button'',
     tags = [''button'', ''pulse'', ''animation'', ''heartbeat'', ''effect''],
     library = Some ShadcnButton,
     installCommand = None,
     documentationUrl = Some ''https://www.shadcn.io/button/pulse-button'' \<rparr>\<close>

definition gradient_button_info :: ComponentInfo where
  \<open>gradient_button_info = \<lparr>
     componentName = ''gradient-button'',
     displayName = ''Gradient Button'',
     packageName = ''shadcn-button'',
     importStatement = ''import { GradientButton } from "@/components/button/gradient-button"'',
     usage = ''<GradientButton>Click me</GradientButton>'',
     description = ''Button with animated gradient background'',
     category = ''advanced-button'',
     tags = [''button'', ''gradient'', ''colorful'', ''animated'', ''background''],
     library = Some ShadcnButton,
     installCommand = None,
     documentationUrl = Some ''https://www.shadcn.io/button/gradient-button'' \<rparr>\<close>

definition neon_button_info :: ComponentInfo where
  \<open>neon_button_info = \<lparr>
     componentName = ''neon-button'',
     displayName = ''Neon Button'',
     packageName = ''shadcn-button'',
     importStatement = ''import { NeonButton } from "@/components/button/neon-button"'',
     usage = ''<NeonButton>Click me</NeonButton>'',
     description = ''Button with neon glow effect'',
     category = ''advanced-button'',
     tags = [''button'', ''neon'', ''glow'', ''cyberpunk'', ''effect''],
     library = Some ShadcnButton,
     installCommand = None,
     documentationUrl = Some ''https://www.shadcn.io/button/neon-button'' \<rparr>\<close>

definition shine_button_info :: ComponentInfo where
  \<open>shine_button_info = \<lparr>
     componentName = ''shine-button'',
     displayName = ''Shine Button'',
     packageName = ''shadcn-button'',
     importStatement = ''import { ShineButton } from "@/components/button/shine-button"'',
     usage = ''<ShineButton>Click me</ShineButton>'',
     description = ''Button with shine sweep animation'',
     category = ''advanced-button'',
     tags = [''button'', ''shine'', ''sweep'', ''animated'', ''effect''],
     library = Some ShadcnButton,
     installCommand = None,
     documentationUrl = Some ''https://www.shadcn.io/button/shine-button'' \<rparr>\<close>

definition copy_button_info :: ComponentInfo where
  \<open>copy_button_info = \<lparr>
     componentName = ''copy-button'',
     displayName = ''Copy Button'',
     packageName = ''shadcn-button'',
     importStatement = ''import { CopyButton } from "@/components/button/copy-button"'',
     usage = ''<CopyButton text="Copy this" />'',
     description = ''Button for copying to clipboard with visual feedback'',
     category = ''advanced-button'',
     tags = [''button'', ''copy'', ''clipboard'', ''feedback'', ''utility''],
     library = Some ShadcnButton,
     installCommand = None,
     documentationUrl = Some ''https://www.shadcn.io/button/copy'' \<rparr>\<close>

definition expanding_button_info :: ComponentInfo where
  \<open>expanding_button_info = \<lparr>
     componentName = ''expanding-button'',
     displayName = ''Expanding Button'',
     packageName = ''shadcn-button'',
     importStatement = ''import { ExpandingButton } from "@/components/button/expanding-button"'',
     usage = ''<ExpandingButton>Click me</ExpandingButton>'',
     description = ''Button that expands on hover'',
     category = ''advanced-button'',
     tags = [''button'', ''expand'', ''hover'', ''animated'', ''growth''],
     library = Some ShadcnButton,
     installCommand = None,
     documentationUrl = Some ''https://www.shadcn.io/button/expanding-button'' \<rparr>\<close>

definition tilt_button_info :: ComponentInfo where
  \<open>tilt_button_info = \<lparr>
     componentName = ''tilt-button'',
     displayName = ''Tilt Button'',
     packageName = ''shadcn-button'',
     importStatement = ''import { TiltButton } from "@/components/button/tilt-button"'',
     usage = ''<TiltButton>Click me</TiltButton>'',
     description = ''Button with 3D tilt effect on hover'',
     category = ''advanced-button'',
     tags = [''button'', ''tilt'', ''3d'', ''hover'', ''perspective''],
     library = Some ShadcnButton,
     installCommand = None,
     documentationUrl = Some ''https://www.shadcn.io/button/tilt-button'' \<rparr>\<close>

definition gradient_text_info :: ComponentInfo where
  \<open>gradient_text_info = \<lparr>
     componentName = ''gradient-text'',
     displayName = ''Gradient Text'',
     packageName = ''shadcn-text'',
     importStatement = ''import { GradientText } from "@/components/text/gradient-text"'',
     usage = ''<GradientText>Beautiful Text</GradientText>'',
     description = ''Text with smooth flowing gradient colors'',
     category = ''text'',
     tags = [''text'', ''gradient'', ''animated'', ''colorful'', ''typography''],
     library = Some ShadcnText,
     installCommand = None,
     documentationUrl = Some ''https://www.shadcn.io/text/gradient-text'' \<rparr>\<close>

definition typing_text_info :: ComponentInfo where
  \<open>typing_text_info = \<lparr>
     componentName = ''typing-text'',
     displayName = ''Typing Text'',
     packageName = ''shadcn-text'',
     importStatement = ''import { TypingText } from "@/components/text/typing-text"'',
     usage = ''<TypingText text="Hello World" />'',
     description = ''Typewriter effect with realistic typing animation'',
     category = ''text'',
     tags = [''text'', ''typing'', ''typewriter'', ''animated'', ''effect''],
     library = Some ShadcnText,
     installCommand = None,
     documentationUrl = Some ''https://www.shadcn.io/text/typing-text'' \<rparr>\<close>

definition shimmering_text_info :: ComponentInfo where
  \<open>shimmering_text_info = \<lparr>
     componentName = ''shimmering-text'',
     displayName = ''Shimmering Text'',
     packageName = ''shadcn-text'',
     importStatement = ''import { ShimmeringText } from "@/components/text/shimmering-text"'',
     usage = ''<ShimmeringText>Shimmer Text</ShimmeringText>'',
     description = ''Text with smooth shimmer wave animation'',
     category = ''text'',
     tags = [''text'', ''shimmer'', ''wave'', ''animated'', ''effect''],
     library = Some ShadcnText,
     installCommand = None,
     documentationUrl = Some ''https://www.shadcn.io/text/shimmering-text'' \<rparr>\<close>

definition counting_number_info :: ComponentInfo where
  \<open>counting_number_info = \<lparr>
     componentName = ''counting-number'',
     displayName = ''Counting Number'',
     packageName = ''shadcn-text'',
     importStatement = ''import { CountingNumber } from "@/components/text/counting-number"'',
     usage = ''<CountingNumber value={1000} />'',
     description = ''Animated counting number with spring animations'',
     category = ''text'',
     tags = [''text'', ''number'', ''counting'', ''animated'', ''spring''],
     library = Some ShadcnText,
     installCommand = None,
     documentationUrl = Some ''https://www.shadcn.io/text/counting-number'' \<rparr>\<close>

definition sliding_number_info :: ComponentInfo where
  \<open>sliding_number_info = \<lparr>
     componentName = ''sliding-number'',
     displayName = ''Sliding Number'',
     packageName = ''shadcn-text'',
     importStatement = ''import { SlidingNumber } from "@/components/text/sliding-number"'',
     usage = ''<SlidingNumber value={1234} />'',
     description = ''Number with digit-by-digit sliding animations'',
     category = ''text'',
     tags = [''text'', ''number'', ''sliding'', ''animated'', ''counter''],
     library = Some ShadcnText,
     installCommand = None,
     documentationUrl = Some ''https://www.shadcn.io/text/sliding-number'' \<rparr>\<close>

definition rolling_text_info :: ComponentInfo where
  \<open>rolling_text_info = \<lparr>
     componentName = ''rolling-text'',
     displayName = ''Rolling Text'',
     packageName = ''shadcn-text'',
     importStatement = ''import { RollingText } from "@/components/text/rolling-text"'',
     usage = ''<RollingText text="Rolling" />'',
     description = ''3D rolling text with character reveals'',
     category = ''text'',
     tags = [''text'', ''rolling'', ''3d'', ''animated'', ''reveal''],
     library = Some ShadcnText,
     installCommand = None,
     documentationUrl = Some ''https://www.shadcn.io/text/rolling-text'' \<rparr>\<close>

definition rotating_text_info :: ComponentInfo where
  \<open>rotating_text_info = \<lparr>
     componentName = ''rotating-text'',
     displayName = ''Rotating Text'',
     packageName = ''shadcn-text'',
     importStatement = ''import { RotatingText } from "@/components/text/rotating-text"'',
     usage = ''<RotatingText words={["Hello", "World"]} />'',
     description = ''Text with smooth vertical rotation transitions'',
     category = ''text'',
     tags = [''text'', ''rotating'', ''animated'', ''transition'', ''cycle''],
     library = Some ShadcnText,
     installCommand = None,
     documentationUrl = Some ''https://www.shadcn.io/text/rotating-text'' \<rparr>\<close>

definition splitting_text_info :: ComponentInfo where
  \<open>splitting_text_info = \<lparr>
     componentName = ''splitting-text'',
     displayName = ''Splitting Text'',
     packageName = ''shadcn-text'',
     importStatement = ''import { SplittingText } from "@/components/text/splitting-text"'',
     usage = ''<SplittingText text="Split Text" />'',
     description = ''Text with staggered character, word, or line reveals'',
     category = ''text'',
     tags = [''text'', ''splitting'', ''stagger'', ''animated'', ''reveal''],
     library = Some ShadcnText,
     installCommand = None,
     documentationUrl = Some ''https://www.shadcn.io/text/splitting-text'' \<rparr>\<close>

definition highlight_text_info :: ComponentInfo where
  \<open>highlight_text_info = \<lparr>
     componentName = ''highlight-text'',
     displayName = ''Highlight Text'',
     packageName = ''shadcn-text'',
     importStatement = ''import { HighlightText } from "@/components/text/highlight-text"'',
     usage = ''<HighlightText>Highlighted Text</HighlightText>'',
     description = ''Text with smooth expanding background highlights'',
     category = ''text'',
     tags = [''text'', ''highlight'', ''background'', ''animated'', ''emphasis''],
     library = Some ShadcnText,
     installCommand = None,
     documentationUrl = Some ''https://www.shadcn.io/text/highlight-text'' \<rparr>\<close>

definition writing_text_info :: ComponentInfo where
  \<open>writing_text_info = \<lparr>
     componentName = ''writing-text'',
     displayName = ''Writing Text'',
     packageName = ''shadcn-text'',
     importStatement = ''import { WritingText } from "@/components/text/writing-text"'',
     usage = ''<WritingText text="Writing Text" />'',
     description = ''Text with word-by-word reveal animation'',
     category = ''text'',
     tags = [''text'', ''writing'', ''reveal'', ''animated'', ''progressive''],
     library = Some ShadcnText,
     installCommand = None,
     documentationUrl = Some ''https://www.shadcn.io/text/writing-text'' \<rparr>\<close>

definition COMPONENT_LIBRARY :: "(string \<times> ComponentInfo) list" where
  "COMPONENT_LIBRARY =
    [(''button'', button_info),
     (''input'', input_info),
     (''textarea'', textarea_info),
     (''select'', select_info),
     (''checkbox'', checkbox_info),
     (''radio'', radio_info),
     (''card'', card_info),
     (''sheet'', sheet_info),
     (''dialog'', dialog_info),
     (''popover'', popover_info),
     (''tabs'', tabs_info),
     (''accordion'', accordion_info),
     (''breadcrumb'', breadcrumb_info),
     (''table'', table_info),
     (''badge'', badge_info),
     (''avatar'', avatar_info),
     (''progress'', progress_info),
     (''skeleton'', skeleton_info),
     (''alert'', alert_info),
     (''toast'', toast_info),
     (''separator'', separator_info),
     (''label'', label_info),
     (''form'', form_info),
     (''switch'', switch_info),
     (''slider'', slider_info),
     (''combobox'', combobox_info),
     (''toggle'', toggle_info),
     (''toggle-group'', toggle_group_info),
     (''input-otp'', input_otp_info),
     (''collapsible'', collapsible_info),
     (''resizable'', resizable_info),
     (''scroll-area'', scroll_area_info),
     (''aspect-ratio'', aspect_ratio_info),
     (''navigation-menu'', navigation_menu_info),
     (''menubar'', menubar_info),
     (''command'', command_info),
     (''context-menu'', context_menu_info),
     (''dropdown-menu'', dropdown_menu_info),
     (''pagination'', pagination_info),
     (''calendar'', calendar_info),
     (''date-picker'', date_picker_info),
     (''hover-card'', hover_card_info),
     (''carousel'', carousel_info),
     (''tooltip'', tooltip_info),
     (''sonner'', sonner_info),
     (''ai-actions'', ai_actions_info),
     (''ai-branch'', ai_branch_info),
     (''ai-code-block'', ai_code_block_info),
     (''ai-conversation'', ai_conversation_info),
     (''ai-image'', ai_image_info),
     (''ai-inline-citation'', ai_inline_citation_info),
     (''ai-loader'', ai_loader_info),
     (''ai-message'', ai_message_info),
     (''ai-prompt-input'', ai_prompt_input_info),
     (''ai-reasoning'', ai_reasoning_info),
     (''ai-response'', ai_response_info),
     (''ai-sources'', ai_sources_info),
     (''ai-suggestion'', ai_suggestion_info),
     (''ai-task'', ai_task_info),
     (''ai-tool'', ai_tool_info),
     (''ai-web-preview'', ai_web_preview_info),
     (''glow-button'', glow_button_info),
     (''shimmer-button'', shimmer_button_info),
     (''magnetic-button'', magnetic_button_info),
     (''pulse-button'', pulse_button_info),
     (''gradient-button'', gradient_button_info),
     (''neon-button'', neon_button_info),
     (''shine-button'', shine_button_info),
     (''copy-button'', copy_button_info),
     (''expanding-button'', expanding_button_info),
     (''tilt-button'', tilt_button_info),
     (''gradient-text'', gradient_text_info),
     (''typing-text'', typing_text_info),
     (''shimmering-text'', shimmering_text_info),
     (''counting-number'', counting_number_info),
     (''sliding-number'', sliding_number_info),
     (''rolling-text'', rolling_text_info),
     (''rotating-text'', rotating_text_info),
     (''splitting-text'', splitting_text_info),
     (''highlight-text'', highlight_text_info),
     (''writing-text'', writing_text_info)]"

section \<open>Single-result lookup\<close>

text \<open>
  A property read \<open>COMPONENT_LIBRARY[k]\<close> is the lookup \<open>map_of COMPONENT_LIBRARY k\<close>;
  \<open>undefined\<close> and \<open>null\<close> are both \<open>None\<close>. A record object and a non-empty string
  are truthy, so each \<open>if (x[k])\<close> of the source tests that the lookup finds an entry.
  No key occurs twice in either table. The properties that every object inherits from
  \<open>Object.prototype\<close> (\<open>constructor\<close> and the like) are not part of the model: the
  tables are read as the finite maps their literals list.

  \<open>findComponent\<close> normalizes the query with \<open>query.toLowerCase().trim()\<close>. In the two
  loops over \<open>Object.entries\<close> the first component of an entry is the table key (the
  source calls it \<open>componentName\<close>; it is \<open>key\<close> here, since \<open>componentName\<close> is the
  field of the record).
\<close>

definition aliases :: "(string \<times> string) list" where
  "aliases =
    [(''btn'', ''button''), (''text'', ''input''), (''textfield'', ''input''),
     (''text area'', ''textarea''), (''text-area'', ''textarea''), (''dropdown'', ''select''),
     (''check'', ''checkbox''), (''check box'', ''checkbox''), (''radio button'', ''radio-group''),
     (''radiobutton'', ''radio-group''), (''container'', ''card''), (''panel'', ''card''),
     (''box'', ''card''), (''drawer'', ''sheet''), (''sidebar'', ''sheet''),
     (''modal'', ''dialog''), (''tooltip'', ''popover''), (''menu'', ''tabs''),
     (''nav'', ''tabs''), (''collapse'', ''accordion''), (''expand'', ''accordion''),
     (''navigation'', ''breadcrumb''), (''path'', ''breadcrumb''), (''data'', ''table''),
     (''grid'', ''table''), (''label'', ''badge''), (''tag'', ''badge''),
     (''status'', ''badge''), (''profile'', ''avatar''), (''user'', ''avatar''),
     (''image'', ''avatar''), (''loading'', ''progress''), (''percent'', ''progress''),
     (''bar'', ''progress''), (''wait'', ''skeleton''), (''placeholder'', ''skeleton''),
     (''shimmer'', ''skeleton''), (''notification'', ''alert''), (''message'', ''alert''),
     (''warning'', ''alert''), (''info'', ''alert''), (''popup'', ''toast''),
     (''temporary'', ''toast''), (''divider'', ''separator''), (''line'', ''separator''),
     (''border'', ''separator'')]"

definition findComponent :: "string \<Rightarrow> ComponentInfo option" where
  "findComponent query =
     (let normalizedQuery = trim (toLowerCase query)
      in case map_of COMPONENT_LIBRARY normalizedQuery of
           Some c \<Rightarrow> Some c
         | None \<Rightarrow>
            (case map_of aliases normalizedQuery of
               Some k \<Rightarrow> map_of COMPONENT_LIBRARY k
             | None \<Rightarrow>
                (case find (\<lambda>(key, componentInfo).
                              list_ex (\<lambda>tag. includes_str tag normalizedQuery \<or> includes_str normalizedQuery tag)
                                (tags componentInfo)) COMPONENT_LIBRARY of
                   Some (key, componentInfo) \<Rightarrow> Some componentInfo
                 | None \<Rightarrow>
                    (case find (\<lambda>(key, componentInfo).
                                  includes_str key normalizedQuery
                                  \<or> includes_str normalizedQuery key) COMPONENT_LIBRARY of
                       Some (key, componentInfo) \<Rightarrow> Some componentInfo
                     | None \<Rightarrow> None))))"

definition getComponentByName :: "string \<Rightarrow> ComponentInfo option" where
  "getComponentByName name = map_of COMPONENT_LIBRARY name"


section \<open>Ranked search\<close>

text \<open>
  \<open>s.split(/\s+/)\<close>: the pieces of \<open>s\<close> between its maximal runs of white space. The
  empty string gives one empty piece, and a string that starts or ends with white space
  gives an empty first or last piece.
\<close>

function split_ws :: "string \<Rightarrow> string list" where
  "split_ws [] = [[]]"
| "split_ws (c # cs) =
     (if isWhiteSpace c then [] # split_ws (dropWhile isWhiteSpace cs)
      else (case split_ws cs of [] \<Rightarrow> [[c]] | w # ws \<Rightarrow> (c # w) # ws))"
  by pat_completeness auto
termination
  by (relation "measure length") (auto simp: less_Suc_eq_le length_dropWhile_le)

text \<open>
  \<open>xs.slice(0, n)\<close>: a negative \<open>n\<close> counts from the end of the array.
\<close>

definition slice0 :: "'a list \<Rightarrow> int \<Rightarrow> 'a list" where
  "slice0 xs n = (if n < 0 then take (nat (int (length xs) + n)) xs else take (nat n) xs)"

record ScoredComponent =
  component :: ComponentInfo
  score :: int

text \<open>
  The body of the loop of \<open>searchComponentsRanked\<close> up to the test \<open>score > 0\<close>: the
  chain of \<open>if\<close> ... \<open>else if\<close> on the normalized query, then the bonus for words of
  the query found in the description.
\<close>

definition componentScore :: "string \<Rightarrow> ComponentInfo \<Rightarrow> int" where
  "componentScore normalizedQuery c =
     (let s0 = (0 :: int);
          s1 =
            (if componentName c = normalizedQuery then s0 + 100
             else if toLowerCase (displayName c) = normalizedQuery then s0 + 90
             else if startsWith (componentName c) normalizedQuery then s0 + 80
             else if startsWith (toLowerCase (displayName c)) normalizedQuery then s0 + 70
             else if includes_str (componentName c) normalizedQuery then s0 + 60
             else if includes_str (toLowerCase (displayName c)) normalizedQuery then s0 + 50
             else if list_ex (\<lambda>tag. tag = normalizedQuery) (tags c) then s0 + 40
             else if list_ex (\<lambda>tag. includes_str tag normalizedQuery) (tags c) then s0 + 30
             else if includes_str (toLowerCase (description c)) normalizedQuery then s0 + 20
             else s0);
          queryWords = split_ws normalizedQuery
      in if length queryWords > 1
         then (let descriptionLower = toLowerCase (description c);
                   matchedWords = length (filter (\<lambda>word. includes_str descriptionLower word) queryWords)
               in s1 + int matchedWords * 5)
         else s1)"

fun scoreComponents :: "string \<Rightarrow> ComponentInfo list \<Rightarrow> ScoredComponent list" where
  "scoreComponents normalizedQuery [] = []"
| "scoreComponents normalizedQuery (c # cs) =
     (let s = componentScore normalizedQuery c
      in if s > 0 then \<lparr>component = c, score = s\<rparr> # scoreComponents normalizedQuery cs
         else scoreComponents normalizedQuery cs)"

definition getAllComponents :: "ComponentInfo list" where
  "getAllComponents = map snd COMPONENT_LIBRARY"

definition getComponentsByCategory :: "string \<Rightarrow> ComponentInfo list" where
  "getComponentsByCategory cat = filter (\<lambda>c. category c = cat) (map snd COMPONENT_LIBRARY)"

text \<open>
  The category filter is applied when the argument is truthy: given and not the empty
  string. An omitted limit is 10. \<open>Array.prototype.sort\<close> is stable, and the comparator
  \<open>b.score - a.score\<close> orders by score, highest first: a stable insertion sort on the
  negated score.
\<close>

definition componentsToSearch :: "string option \<Rightarrow> ComponentInfo list" where
  "componentsToSearch cat =
     (case cat of
        None \<Rightarrow> map snd COMPONENT_LIBRARY
      | Some f \<Rightarrow> if f = [] then map snd COMPONENT_LIBRARY
                  else filter (\<lambda>c. category c = f) (map snd COMPONENT_LIBRARY))"

definition searchComponentsRanked :: "string \<Rightarrow> string option \<Rightarrow> int option \<Rightarrow> ComponentInfo list" where
  "searchComponentsRanked query cat lim =
     (let limit = (case lim of None \<Rightarrow> 10 | Some n \<Rightarrow> n);
          normalizedQuery = trim (toLowerCase query);
          scoredComponents = scoreComponents normalizedQuery (componentsToSearch cat)
      in map component (slice0 (sort_key (\<lambda>sc. - score sc) scoredComponents) limit))"

text \<open>
  \<open>listComponents\<close>: the fields of the request are the three arguments. \<open>!query\<close> holds
  of the empty string; \<open>limit && limit > 0\<close> and \<open>limit || 100\<close> treat an omitted limit
  and the limit 0 alike. The fields of \<open>ComponentSummary\<close> (\<open>name\<close>, \<open>displayName\<close>,
  \<open>description\<close>, \<open>category\<close>, \<open>library\<close>) carry the prefix \<open>summary\<close>, their names
  being those of the fields of \<open>ComponentInfo\<close>.
\<close>

record ComponentSummary =
  summaryName :: string
  summaryDisplayName :: string
  summaryDescription :: string
  summaryCategory :: string
  summaryLibrary :: "Library option"

definition listComponents :: "string \<Rightarrow> string option \<Rightarrow> int option \<Rightarrow> ComponentSummary list" where
  "listComponents query cat lim =
     (let comps =
            (if query = [] \<or> toLowerCase query = ''all''
             then (let all = (case cat of
                                None \<Rightarrow> getAllComponents
                              | Some f \<Rightarrow> if f = [] then getAllComponents else getComponentsByCategory f)
                   in case lim of
                        None \<Rightarrow> all
                      | Some n \<Rightarrow> if n > 0 then slice0 all n else all)
             else searchComponentsRanked query cat
                    (Some (case lim of None \<Rightarrow> 100 | Some n \<Rightarrow> if n = 0 then 100 else n)))
      in map (\<lambda>c. \<lparr>summaryName = componentName c,
                     summaryDisplayName = displayName c,
                     summaryDescription = description c,
                     summaryCategory = category c,
                     summaryLibrary = library c\<rparr>) comps)"

section \<open>Visual pattern matcher\<close>

record VisualPattern =
  keywords_vp :: "string list"
  components :: "string list"
  priority :: int

definition VISUAL_PATTERNS :: "(string \<times> VisualPattern) list" where
  "VISUAL_PATTERNS =
    [(''hero'',
      \<lparr>keywords_vp =
         [''hero'', ''banner'', ''jumbotron'', ''large heading'', ''main heading'',
          ''hero section'', ''landing header'', ''above the fold'', ''headline''],
       components =
         [''card'', ''button'', ''gradient-text'', ''glow-button'', ''gradient-button''],
       priority = 10\<rparr>),
     (''navigation'',
      \<lparr>keywords_vp =
         [''navigation'', ''navbar'', ''nav bar'', ''menu'', ''header'', ''nav links'',
          ''top menu'', ''navigation bar'', ''site navigation'', ''main nav''],
       components =
         [''navigation-menu'', ''menubar'', ''tabs'', ''breadcrumb'', ''dropdown-menu''],
       priority = 9\<rparr>),
     (''features'',
      \<lparr>keywords_vp =
         [''features'', ''feature grid'', ''benefits'', ''three columns'',
          ''3 columns'', ''icon grid'', ''feature cards'', ''feature list'',
          ''key features'', ''highlights''],
       components =
         [''card'', ''badge'', ''avatar'', ''separator''],
       priority = 8\<rparr>),
     (''form'',
      \<lparr>keywords_vp =
         [''form'', ''input'', ''contact form'', ''signup'', ''sign up'', ''login'',
          ''text field'', ''input field'', ''form field'', ''contact'', ''subscribe''],
       components =
         [''form'', ''input'', ''textarea'', ''button'', ''select'', ''checkbox'',
          ''label''],
       priority = 8\<rparr>),
     (''pricing'',
      \<lparr>keywords_vp =
         [''pricing'', ''plans'', ''tiers'', ''subscription'', ''price table'',
          ''pricing table'', ''pricing cards'', ''plan options'', ''packages''],
       components =
         [''card'', ''badge'', ''button'', ''separator'', ''switch'', ''toggle''],
       priority = 7\<rparr>),
     (''testimonials'',
      \<lparr>keywords_vp =
         [''testimonials'', ''reviews'', ''quotes'', ''feedback'',
          ''customer stories'', ''testimonial'', ''review'', ''customer feedback'',
          ''user reviews'', ''ratings''],
       components =
         [''card'', ''avatar'', ''carousel'', ''badge''],
       priority = 7\<rparr>),
     (''cta'',
      \<lparr>keywords_vp =
         [''call to action'', ''cta'', ''sign up'', ''get started'', ''try now'',
          ''action button'', ''primary button'', ''start free trial'', ''download''],
       components =
         [''button'', ''glow-button'', ''gradient-button'', ''shimmer-button''],
       priority = 9\<rparr>),
     (''stats'',
      \<lparr>keywords_vp =
         [''statistics'', ''stats'', ''numbers'', ''metrics'', ''counter'',
          ''achievements'', ''key numbers'', ''data'', ''analytics''],
       components =
         [''card'', ''counting-number'', ''sliding-number'', ''badge'', ''progress''],
       priority = 6\<rparr>),
     (''gallery'',
      \<lparr>keywords_vp =
         [''gallery'', ''images'', ''portfolio'', ''showcase'', ''image grid'',
          ''photo gallery'', ''image showcase'', ''work samples''],
       components =
         [''carousel'', ''card'', ''aspect-ratio'', ''dialog''],
       priority = 6\<rparr>),
     (''faq'',
      \<lparr>keywords_vp =
         [''faq'', ''questions'', ''accordion'', ''collapsible'', ''q&a'',
          ''frequently asked'', ''help'', ''support''],
       components =
         [''accordion'', ''collapsible'', ''card''],
       priority = 5\<rparr>),
     (''footer'',
      \<lparr>keywords_vp =
         [''footer'', ''site footer'', ''bottom'', ''copyright'', ''links footer'',
          ''footer links'', ''social links''],
       components =
         [''separator'', ''button'', ''navigation-menu''],
       priority = 4\<rparr>),
     (''table'',
      \<lparr>keywords_vp =
         [''table'', ''data table'', ''grid'', ''rows'', ''columns'',
          ''comparison table'', ''feature comparison''],
       components =
         [''table'', ''badge'', ''checkbox''],
       priority = 6\<rparr>),
     (''tabs'',
      \<lparr>keywords_vp =
         [''tabs'', ''tabbed'', ''tab navigation'', ''tab panel'', ''switch between'',
          ''toggle views''],
       components =
         [''tabs'', ''toggle-group''],
       priority = 7\<rparr>)]"

text \<open>
  The state of \<open>matchComponentsFromAnalysis\<close>: the set \<open>matchedComponents\<close>, which
  iterates in insertion order and is here the list of its members in that order, and the
  object \<open>priorities\<close>, a map from component names to numbers. \<open>priorities[comp] || 0\<close>
  is \<open>orZero\<close>. The field \<open>keywords\<close> of a pattern is \<open>keywords_vp\<close> and the variable
  \<open>comp\<close> of the source is \<open>cname\<close>, both names being taken in Isabelle. For each pattern
  the inner loop stops at the first keyword that occurs in the text, and then adds every
  component of the pattern.
\<close>

type_synonym MatchState = "string list \<times> (string \<rightharpoonup> int)"

definition orZero :: "int option \<Rightarrow> int" where
  "orZero v = (case v of None \<Rightarrow> 0 | Some n \<Rightarrow> n)"

definition setAdd :: "string list \<Rightarrow> string \<Rightarrow> string list" where
  "setAdd matchedComponents cname =
     (if cname \<in> set matchedComponents then matchedComponents else matchedComponents @ [cname])"

definition addPatternComponent :: "int \<Rightarrow> MatchState \<Rightarrow> string \<Rightarrow> MatchState" where
  "addPatternComponent patternPriority st cname =
     (setAdd (fst st) cname,
      (snd st)(cname \<mapsto> max (orZero (snd st cname)) patternPriority))"

fun matchPatterns :: "string \<Rightarrow> (string \<times> VisualPattern) list \<Rightarrow> MatchState \<Rightarrow> MatchState" where
  "matchPatterns lowerAnalysis [] st = st"
| "matchPatterns lowerAnalysis (entry # rest) st =
     matchPatterns lowerAnalysis rest
       (case find (\<lambda>keyword. includes_str lowerAnalysis keyword) (keywords_vp (snd entry)) of
          Some keyword \<Rightarrow>
            foldl (addPatternComponent (priority (snd entry))) st (components (snd entry))
        | None \<Rightarrow> st)"

definition addDefaultComponent :: "MatchState \<Rightarrow> string \<Rightarrow> MatchState" where
  "addDefaultComponent st cname = (setAdd (fst st) cname, (snd st)(cname \<mapsto> 5))"

definition matchState :: "string \<Rightarrow> MatchState" where
  "matchState analysis =
     (let lowerAnalysis = toLowerCase analysis;
          st = matchPatterns lowerAnalysis VISUAL_PATTERNS ([], Map.empty)
      in if length (fst st) = 0
         then foldl addDefaultComponent st [''button'', ''card'', ''input'']
         else st)"

definition installationFor :: "ComponentInfo \<Rightarrow> string" where
  "installationFor c =
     (let fallback = ''Install command for '' @ [CHR 0x27] @ componentName c @ [CHR 0x27]
                       @ '' component not found. Try installing it by yourself.''
      in case installCommand c of
           None \<Rightarrow> fallback
         | Some cmd \<Rightarrow> if cmd = [] then fallback else cmd)"

text \<open>
  The function is \<open>async\<close> and awaits nothing: its promise resolves to the pair of
  \<open>components\<close> and \<open>installations\<close>.
\<close>

definition matchComponentsFromAnalysis :: "string \<Rightarrow> ComponentInfo list \<times> string list" where
  "matchComponentsFromAnalysis analysis =
     (let st = matchState analysis;
          found = List.map_filter getComponentByName (fst st);
          ranked = sort_key (\<lambda>c. - orZero (snd st (componentName c))) found
      in (ranked, map installationFor ranked))"

section \<open>Template conversation\<close>

text \<open>
  \<open>CONVERSATION_QUESTIONS\<close> has the keys 1 to 4. \<open>currentStep\<close> is a number and is
  read as an integer; a step that is not a key of the table has no question. The fields
  \<open>name\<close>, \<open>priority\<close> and \<open>description\<close> of \<open>TemplateSection\<close> carry the prefix
  \<open>section\<close>.
\<close>

record ConversationQuestion =
  question :: string
  options :: "string list"
  key :: string

definition CONVERSATION_QUESTIONS :: "(int \<times> ConversationQuestion) list" where
  "CONVERSATION_QUESTIONS =
    [(1, \<lparr>question = ''What is this landing page for?'',
          options = [''SaaS Product'', ''Mobile App'', ''Ecommerce Product'',
                     ''Personal Portfolio'', ''Event'', ''Other''],
          key = ''purpose''\<rparr>),
     (2, \<lparr>question = ''Who is your target audience?'',
          options = [''Customers'', ''Investors'', ''Partners'', ''Job Applicants'',
                     ''General Users''],
          key = ''targetAudience''\<rparr>),
     (3, \<lparr>question = ''What action do you want visitors to take?'',
          options = [''Sign up'', ''Request a demo'', ''Buy'', ''Subscribe to newsletter'',
                     ''Contact you''],
          key = ''desiredAction''\<rparr>),
     (4, \<lparr>question = ''What style or tone do you prefer?'',
          options = [''Professional'', ''Friendly'', ''Creative'', ''Minimalist''],
          key = ''style''\<rparr>)]"

text \<open>
  \<open>answers\<close> is an object used as a dictionary: an association list in insertion order,
  where an assignment to a present key replaces its value in place and an assignment to
  a new key appends.
\<close>

fun setProperty :: "(string \<times> string) list \<Rightarrow> string \<Rightarrow> string \<Rightarrow> (string \<times> string) list" where
  "setProperty [] k v = [(k, v)]"
| "setProperty (p # ps) k v = (if fst p = k then (k, v) # ps else p # setProperty ps k v)"

record ConversationState =
  currentStep :: int
  totalSteps :: int
  answers :: "(string \<times> string) list"
  nextQuestion :: "string option"

record TemplateAnswers =
  purpose :: string
  targetAudience :: string
  desiredAction :: string
  style :: string

record TemplateSection =
  sectionName :: string
  sectionPriority :: int
  tailarkComponent :: string
  sectionDescription :: string

definition templateSection :: "string \<Rightarrow> int \<Rightarrow> string \<Rightarrow> string \<Rightarrow> TemplateSection" where
  "templateSection n p t d =
     \<lparr>sectionName = n, sectionPriority = p, tailarkComponent = t, sectionDescription = d\<rparr>"

text \<open>
  \<open>selectSectionsForTemplate\<close> pushes sections onto an array and sorts it by priority,
  highest first (a stable sort). Each \<open>switch\<close> without a matching case pushes nothing.
\<close>

definition purposeSections :: "string \<Rightarrow> TemplateSection list" where
  "purposeSections p =
     (if p = ''SaaS Product'' then
        [templateSection ''Features'' 9 ''features'' ''Product features and benefits'',
         templateSection ''Pricing'' 8 ''pricing'' ''Pricing plans and tiers'',
         templateSection ''Testimonials'' 7 ''testimonials'' ''Customer testimonials and reviews'']
      else if p = ''Mobile App'' then
        [templateSection ''Features'' 9 ''features'' ''App features and functionality'',
         templateSection ''Stats'' 8 ''stats'' ''Download numbers and user stats'',
         templateSection ''Testimonials'' 7 ''testimonials'' ''User reviews and ratings'']
      else if p = ''Ecommerce Product'' then
        [templateSection ''Features'' 9 ''features'' ''Product features and benefits'',
         templateSection ''Testimonials'' 8 ''testimonials'' ''Customer reviews'',
         templateSection ''Content'' 7 ''content'' ''Product details and specifications'']
      else if p = ''Personal Portfolio'' then
        [templateSection ''Content'' 9 ''content'' ''About section and experience'',
         templateSection ''Testimonials'' 8 ''testimonials'' ''Client testimonials'',
         templateSection ''Team'' 7 ''team'' ''Personal information'']
      else if p = ''Event'' then
        [templateSection ''Content'' 9 ''content'' ''Event details and agenda'',
         templateSection ''Stats'' 8 ''stats'' ''Event statistics and highlights'',
         templateSection ''Testimonials'' 7 ''testimonials'' ''Previous event feedback'']
      else [])"

definition actionSections :: "string \<Rightarrow> TemplateSection list" where
  "actionSections a =
     (if a = ''Sign up'' then
        [templateSection ''Call to Action'' 9 ''call-to-action'' ''Sign up form and benefits'']
      else if a = ''Request a demo'' then
        [templateSection ''Call to Action'' 9 ''call-to-action'' ''Demo request form'']
      else if a = ''Buy'' then
        [templateSection ''Pricing'' 9 ''pricing'' ''Product pricing and purchase options'']
      else if a = ''Subscribe to newsletter'' then
        [templateSection ''Call to Action'' 8 ''call-to-action'' ''Newsletter signup form'']
      else if a = ''Contact you'' then
        [templateSection ''Call to Action'' 8 ''call-to-action'' ''Contact form and information'']
      else [])"

definition selectSectionsForTemplate :: "TemplateAnswers \<Rightarrow> TemplateSection list" where
  "selectSectionsForTemplate a =
     (let sections =
            [templateSection ''Hero Section'' 10 ''hero'' ''Main landing section with headline and CTA'']
            @ purposeSections (purpose a)
            @ (if targetAudience a = ''Investors'' then
                 [templateSection ''Stats'' 8 ''stats'' ''Key metrics and growth numbers'',
                  templateSection ''Team'' 7 ''team'' ''Founding team and advisors'']
               else [])
            @ actionSections (desiredAction a)
            @ [templateSection ''Footer'' 1 ''footer'' ''Site footer with links and information'']
      in sort_key (\<lambda>s. - sectionPriority s) sections)"

text \<open>
  \<open>generateTemplateFromAnswers\<close> returns a fixed Markdown text into which it writes the
  four answers and, for each selected section, its fields. The rendered template is
  modelled by these values.
\<close>

record RenderedTemplate =
  templateAnswers :: TemplateAnswers
  templateSections :: "TemplateSection list"

definition generateTemplateFromAnswers :: "TemplateAnswers \<Rightarrow> RenderedTemplate" where
  "generateTemplateFromAnswers a =
     \<lparr>templateAnswers = a, templateSections = selectSectionsForTemplate a\<rparr>"

text \<open>
  The result of \<open>processConversationStep\<close> is tagged \<open>'question'\<close> or \<open>'template'\<close>.
  Reading \<open>nextQuestion.question\<close> when step \<open>currentStep + 1\<close> has no question throws a
  \<open>TypeError\<close>. \<open>answers.purpose || ''\<close> is \<open>orEmpty\<close>. The source stores the answer
  into the \<open>answers\<close> object of the state it was given; the model returns the updated
  dictionary in the new state.
\<close>

datatype error = TypeError

datatype StepResult = QuestionResult ConversationState | TemplateResult RenderedTemplate

definition orEmpty :: "string option \<Rightarrow> string" where
  "orEmpty v = (case v of None \<Rightarrow> [] | Some s \<Rightarrow> s)"

definition processConversationStep :: "ConversationState \<Rightarrow> string \<Rightarrow> error + StepResult" where
  "processConversationStep conversationState userAnswer =
     (let step = currentStep conversationState;
          stored =
            (case map_of CONVERSATION_QUESTIONS step of
               Some currentQuestion \<Rightarrow>
                 setProperty (answers conversationState) (key currentQuestion) userAnswer
             | None \<Rightarrow> answers conversationState)
      in if step \<ge> 4
         then Inr (TemplateResult (generateTemplateFromAnswers
                \<lparr>purpose = orEmpty (map_of stored ''purpose''),
                 targetAudience = orEmpty (map_of stored ''targetAudience''),
                 desiredAction = orEmpty (map_of stored ''desiredAction''),
                 style = orEmpty (map_of stored ''style'')\<rparr>))
         else (let nextStep = step + 1
               in case map_of CONVERSATION_QUESTIONS nextStep of
                    None \<Rightarrow> Inl TypeError
                  | Some next \<Rightarrow>
                      Inr (QuestionResult
                        \<lparr>currentStep = nextStep, totalSteps = 4, answers = stored,
                         nextQuestion = Some (question next)\<rparr>)))"

section \<open>Definitions on the side of the specification\<close>

text \<open>
  The definitions of this section are not functions of the source. Those named
  \<open>spec_\<close> follow the words of the specification, to be compared with the functions above;
  the others name what the statements below speak of.

  The list that \<open>searchComponentsRanked\<close> sorts: the scored components, highest score
  first.
\<close>

definition rankedList :: "string \<Rightarrow> ComponentInfo list \<Rightarrow> ScoredComponent list" where
  "rankedList q cs = sort_key (\<lambda>sc. - score sc) (scoreComponents q cs)"

text \<open>
  The tier ladder as the specification words it: a list of rules with their points, of
  which the first that matches applies; and the bonus for words of the query found in the
  description, once counting every word of the query and once counting distinct words.
\<close>

definition spec_tierLadder :: "((string \<Rightarrow> ComponentInfo \<Rightarrow> bool) \<times> int) list" where
  "spec_tierLadder =
    [(\<lambda>q c. componentName c = q, 100),
     (\<lambda>q c. toLowerCase (displayName c) = q, 90),
     (\<lambda>q c. startsWith (componentName c) q, 80),
     (\<lambda>q c. startsWith (toLowerCase (displayName c)) q, 70),
     (\<lambda>q c. includes_str (componentName c) q, 60),
     (\<lambda>q c. includes_str (toLowerCase (displayName c)) q, 50),
     (\<lambda>q c. list_ex (\<lambda>tag. tag = q) (tags c), 40),
     (\<lambda>q c. list_ex (\<lambda>tag. includes_str tag q) (tags c), 30),
     (\<lambda>q c. includes_str (toLowerCase (description c)) q, 20)]"

definition spec_firstMatchingTier :: "string \<Rightarrow> ComponentInfo \<Rightarrow> int" where
  "spec_firstMatchingTier q c =
     (case find (\<lambda>rule. fst rule q c) spec_tierLadder of None \<Rightarrow> 0 | Some rule \<Rightarrow> snd rule)"

definition spec_wordsInDescription :: "string \<Rightarrow> ComponentInfo \<Rightarrow> string list" where
  "spec_wordsInDescription q c =
     filter (\<lambda>word. includes_str (toLowerCase (description c)) word) (split_ws q)"

definition spec_occurrenceBonus :: "string \<Rightarrow> ComponentInfo \<Rightarrow> int" where
  "spec_occurrenceBonus q c =
     (if length (split_ws q) > 1 then 5 * int (length (spec_wordsInDescription q c)) else 0)"

definition spec_distinctWordBonus :: "string \<Rightarrow> ComponentInfo \<Rightarrow> int" where
  "spec_distinctWordBonus q c =
     (if length (split_ws q) > 1 then 5 * int (length (remdups (spec_wordsInDescription q c))) else 0)"

text \<open>
  The single-result lookup as the specification words it: four rules in a fixed order,
  each producing a record or nothing, of which the first that produces a record decides.
\<close>

definition spec_exactKeyRule :: "string \<Rightarrow> ComponentInfo option" where
  "spec_exactKeyRule q = map_of COMPONENT_LIBRARY q"

definition spec_aliasRule :: "string \<Rightarrow> ComponentInfo option" where
  "spec_aliasRule q = (case map_of aliases q of None \<Rightarrow> None | Some k \<Rightarrow> map_of COMPONENT_LIBRARY k)"

definition spec_tagRule :: "string \<Rightarrow> ComponentInfo option" where
  "spec_tagRule q =
     map_option snd
       (find (\<lambda>e. list_ex (\<lambda>tag. includes_str tag q \<or> includes_str q tag) (tags (snd e)))
          COMPONENT_LIBRARY)"

definition spec_keyRule :: "string \<Rightarrow> ComponentInfo option" where
  "spec_keyRule q =
     map_option snd (find (\<lambda>e. includes_str (fst e) q \<or> includes_str q (fst e)) COMPONENT_LIBRARY)"

fun spec_firstHit :: "('a \<Rightarrow> 'b option) list \<Rightarrow> 'a \<Rightarrow> 'b option" where
  "spec_firstHit [] q = None"
| "spec_firstHit (r # rs) q = (case r q of Some c \<Rightarrow> Some c | None \<Rightarrow> spec_firstHit rs q)"

definition spec_findComponent :: "string \<Rightarrow> ComponentInfo option" where
  "spec_findComponent query =
     spec_firstHit [spec_exactKeyRule, spec_aliasRule, spec_tagRule, spec_keyRule] (trim (toLowerCase query))"

text \<open>
  A caller that holds a conversation: it sends the answers one at a time, each call
  carrying the state that the call before returned, and collects the responses. It stops
  at the first response that is not a question.
\<close>

fun runConversation :: "ConversationState \<Rightarrow> string list \<Rightarrow> (error + StepResult) list" where
  "runConversation st [] = []"
| "runConversation st (a # rest) =
     (case processConversationStep st a of
        Inr (QuestionResult st') \<Rightarrow> Inr (QuestionResult st') # runConversation st' rest
      | r \<Rightarrow> [r])"

text \<open>
  The patterns that match a lower-cased text (those with a keyword that occurs in it), in
  table order, and the priorities of the matching patterns that list a given component.
\<close>

definition patternsMatching :: "string \<Rightarrow> (string \<times> VisualPattern) list \<Rightarrow> VisualPattern list" where
  "patternsMatching lowerAnalysis ps =
     filter (\<lambda>p. list_ex (includes_str lowerAnalysis) (keywords_vp p)) (map snd ps)"

definition matchedPatterns :: "string \<Rightarrow> VisualPattern list" where
  "matchedPatterns analysis = patternsMatching (toLowerCase analysis) VISUAL_PATTERNS"

definition suggestingPriorities :: "VisualPattern list \<Rightarrow> string \<Rightarrow> int list" where
  "suggestingPriorities ps n = map priority (filter (\<lambda>p. n \<in> set (components p)) ps)"

definition highestPriority :: "string \<Rightarrow> string \<Rightarrow> int" where
  "highestPriority analysis n = Max (set (suggestingPriorities (matchedPatterns analysis) n))"

section \<open>Evaluating the string functions\<close>

lemma toLowerChar_keep: "\<not> isUpperCase c \<Longrightarrow> toLowerChar c = c"
  by (simp add: toLowerChar_def)

lemma toLowerChar_AZ:
  "toLowerChar CHR ''A'' = CHR ''a''"
  "toLowerChar CHR ''B'' = CHR ''b''"
  "toLowerChar CHR ''C'' = CHR ''c''"
  "toLowerChar CHR ''D'' = CHR ''d''"
  "toLowerChar CHR ''E'' = CHR ''e''"
  "toLowerChar CHR ''F'' = CHR ''f''"
  "toLowerChar CHR ''G'' = CHR ''g''"
  "toLowerChar CHR ''H'' = CHR ''h''"
  "toLowerChar CHR ''I'' = CHR ''i''"
  "toLowerChar CHR ''J'' = CHR ''j''"
  "toLowerChar CHR ''K'' = CHR ''k''"
  "toLowerChar CHR ''L'' = CHR ''l''"
  "toLowerChar CHR ''M'' = CHR ''m''"
  "toLowerChar CHR ''N'' = CHR ''n''"
  "toLowerChar CHR ''O'' = CHR ''o''"
  "toLowerChar CHR ''P'' = CHR ''p''"
  "toLowerChar CHR ''Q'' = CHR ''q''"
  "toLowerChar CHR ''R'' = CHR ''r''"
  "toLowerChar CHR ''S'' = CHR ''s''"
  "toLowerChar CHR ''T'' = CHR ''t''"
  "toLowerChar CHR ''U'' = CHR ''u''"
  "toLowerChar CHR ''V'' = CHR ''v''"
  "toLowerChar CHR ''W'' = CHR ''w''"
  "toLowerChar CHR ''X'' = CHR ''x''"
  "toLowerChar CHR ''Y'' = CHR ''y''"
  "toLowerChar CHR ''Z'' = CHR ''z''"
  by code_simp+

lemmas lower_simps = toLowerCase_def toLowerChar_keep toLowerChar_AZ isUpperCase_def

section \<open>Facts about the tables\<close>

lemmas info_defs =
  button_info_def input_info_def textarea_info_def select_info_def checkbox_info_def
  radio_info_def card_info_def sheet_info_def dialog_info_def popover_info_def
  tabs_info_def accordion_info_def breadcrumb_info_def table_info_def badge_info_def
  avatar_info_def progress_info_def skeleton_info_def alert_info_def toast_info_def
  separator_info_def label_info_def form_info_def switch_info_def slider_info_def
  combobox_info_def toggle_info_def toggle_group_info_def input_otp_info_def
  collapsible_info_def resizable_info_def scroll_area_info_def aspect_ratio_info_def
  navigation_menu_info_def menubar_info_def command_info_def context_menu_info_def
  dropdown_menu_info_def pagination_info_def calendar_info_def date_picker_info_def
  hover_card_info_def carousel_info_def tooltip_info_def sonner_info_def
  ai_actions_info_def ai_branch_info_def ai_code_block_info_def
  ai_conversation_info_def ai_image_info_def ai_inline_citation_info_def
  ai_loader_info_def ai_message_info_def ai_prompt_input_info_def ai_reasoning_info_def
  ai_response_info_def ai_sources_info_def ai_suggestion_info_def ai_task_info_def
  ai_tool_info_def ai_web_preview_info_def glow_button_info_def shimmer_button_info_def
  magnetic_button_info_def pulse_button_info_def gradient_button_info_def
  neon_button_info_def shine_button_info_def copy_button_info_def
  expanding_button_info_def tilt_button_info_def gradient_text_info_def
  typing_text_info_def shimmering_text_info_def counting_number_info_def
  sliding_number_info_def rolling_text_info_def rotating_text_info_def
  splitting_text_info_def highlight_text_info_def writing_text_info_def

lemma component_names:
  "componentName button_info = ''button''"
  "componentName input_info = ''input''"
  "componentName textarea_info = ''textarea''"
  "componentName select_info = ''select''"
  "componentName checkbox_info = ''checkbox''"
  "componentName radio_info = ''radio-group''"
  "componentName card_info = ''card''"
  "componentName sheet_info = ''sheet''"
  "componentName dialog_info = ''dialog''"
  "componentName popover_info = ''popover''"
  "componentName tabs_info = ''tabs''"
  "componentName accordion_info = ''accordion''"
  "componentName breadcrumb_info = ''breadcrumb''"
  "componentName table_info = ''table''"
  "componentName badge_info = ''badge''"
  "componentName avatar_info = ''avatar''"
  "componentName progress_info = ''progress''"
  "componentName skeleton_info = ''skeleton''"
  "componentName alert_info = ''alert''"
  "componentName toast_info = ''toast''"
  "componentName separator_info = ''separator''"
  "componentName label_info = ''label''"
  "componentName form_info = ''form''"
  "componentName switch_info = ''switch''"
  "componentName slider_info = ''slider''"
  "componentName combobox_info = ''combobox''"
  "componentName toggle_info = ''toggle''"
  "componentName toggle_group_info = ''toggle-group''"
  "componentName input_otp_info = ''input-otp''"
  "componentName collapsible_info = ''collapsible''"
  "componentName resizable_info = ''resizable''"
  "componentName scroll_area_info = ''scroll-area''"
  "componentName aspect_ratio_info = ''aspect-ratio''"
  "componentName navigation_menu_info = ''navigation-menu''"
  "componentName menubar_info = ''menubar''"
  "componentName command_info = ''command''"
  "componentName context_menu_info = ''context-menu''"
  "componentName dropdown_menu_info = ''dropdown-menu''"
  "componentName pagination_info = ''pagination''"
  "componentName calendar_info = ''calendar''"
  "componentName date_picker_info = ''date-picker''"
  "componentName hover_card_info = ''hover-card''"
  "componentName carousel_info = ''carousel''"
  "componentName tooltip_info = ''tooltip''"
  "componentName sonner_info = ''sonner''"
  "componentName ai_actions_info = ''ai-actions''"
  "componentName ai_branch_info = ''ai-branch''"
  "componentName ai_code_block_info = ''ai-code-block''"
  "componentName ai_conversation_info = ''ai-conversation''"
  "componentName ai_image_info = ''ai-image''"
  "componentName ai_inline_citation_info = ''ai-inline-citation''"
  "componentName ai_loader_info = ''ai-loader''"
  "componentName ai_message_info = ''ai-message''"
  "componentName ai_prompt_input_info = ''ai-prompt-input''"
  "componentName ai_reasoning_info = ''ai-reasoning''"
  "componentName ai_response_info = ''ai-response''"
  "componentName ai_sources_info = ''ai-sources''"
  "componentName ai_suggestion_info = ''ai-suggestion''"
  "componentName ai_task_info = ''ai-task''"
  "componentName ai_tool_info = ''ai-tool''"
  "componentName ai_web_preview_info = ''ai-web-preview''"
  "componentName glow_button_info = ''glow-button''"
  "componentName shimmer_button_info = ''shimmer-button''"
  "componentName magnetic_button_info = ''magnetic-button''"
  "componentName pulse_button_info = ''pulse-button''"
  "componentName gradient_button_info = ''gradient-button''"
  "componentName neon_button_info = ''neon-button''"
  "componentName shine_button_info = ''shine-button''"
  "componentName copy_button_info = ''copy-button''"
  "componentName expanding_button_info = ''expanding-button''"
  "componentName tilt_button_info = ''tilt-button''"
  "componentName gradient_text_info = ''gradient-text''"
  "componentName typing_text_info = ''typing-text''"
  "componentName shimmering_text_info = ''shimmering-text''"
  "componentName counting_number_info = ''counting-number''"
  "componentName sliding_number_info = ''sliding-number''"
  "componentName rolling_text_info = ''rolling-text''"
  "componentName rotating_text_info = ''rotating-text''"
  "componentName splitting_text_info = ''splitting-text''"
  "componentName highlight_text_info = ''highlight-text''"
  "componentName writing_text_info = ''writing-text''"
  by (simp_all add: info_defs)

lemma component_display_names:
  "displayName button_info = ''Button''"
  "displayName input_info = ''Input''"
  "displayName textarea_info = ''Textarea''"
  "displayName select_info = ''Select''"
  "displayName checkbox_info = ''Checkbox''"
  "displayName radio_info = ''Radio Group''"
  "displayName card_info = ''Card''"
  "displayName sheet_info = ''Sheet''"
  "displayName dialog_info = ''Dialog''"
  "displayName popover_info = ''Popover''"
  "displayName tabs_info = ''Tabs''"
  "displayName accordion_info = ''Accordion''"
  "displayName breadcrumb_info = ''Breadcrumb''"
  "displayName table_info = ''Table''"
  "displayName badge_info = ''Badge''"
  "displayName avatar_info = ''Avatar''"
  "displayName progress_info = ''Progress''"
  "displayName skeleton_info = ''Skeleton''"
  "displayName alert_info = ''Alert''"
  "displayName toast_info = ''Toast''"
  "displayName separator_info = ''Separator''"
  "displayName label_info = ''Label''"
  "displayName form_info = ''Form''"
  "displayName switch_info = ''Switch''"
  "displayName slider_info = ''Slider''"
  "displayName combobox_info = ''Combobox''"
  "displayName toggle_info = ''Toggle''"
  "displayName toggle_group_info = ''Toggle Group''"
  "displayName input_otp_info = ''Input OTP''"
  "displayName collapsible_info = ''Collapsible''"
  "displayName resizable_info = ''Resizable''"
  "displayName scroll_area_info = ''Scroll Area''"
  "displayName aspect_ratio_info = ''Aspect Ratio''"
  "displayName navigation_menu_info = ''Navigation Menu''"
  "displayName menubar_info = ''Menubar''"
  "displayName command_info = ''Command''"
  "displayName context_menu_info = ''Context Menu''"
  "displayName dropdown_menu_info = ''Dropdown Menu''"
  "displayName pagination_info = ''Pagination''"
  "displayName calendar_info = ''Calendar''"
  "displayName date_picker_info = ''Date Picker''"
  "displayName hover_card_info = ''Hover Card''"
  "displayName carousel_info = ''Carousel''"
  "displayName tooltip_info = ''Tooltip''"
  "displayName sonner_info = ''Sonner''"
  "displayName ai_actions_info = ''AI Actions''"
  "displayName ai_branch_info = ''AI Branch''"
  "displayName ai_code_block_info = ''AI Code Block''"
  "displayName ai_conversation_info = ''AI Conversation''"
  "displayName ai_image_info = ''AI Image''"
  "displayName ai_inline_citation_info = ''AI Inline Citation''"
  "displayName ai_loader_info = ''AI Loader''"
  "displayName ai_message_info = ''AI Message''"
  "displayName ai_prompt_input_info = ''AI Prompt Input''"
  "displayName ai_reasoning_info = ''AI Reasoning''"
  "displayName ai_response_info = ''AI Response''"
  "displayName ai_sources_info = ''AI Sources''"
  "displayName ai_suggestion_info = ''AI Suggestion''"
  "displayName ai_task_info = ''AI Task''"
  "displayName ai_tool_info = ''AI Tool''"
  "displayName ai_web_preview_info = ''AI Web Preview''"
  "displayName glow_button_info = ''Glow Button''"
  "displayName shimmer_button_info = ''Shimmer Button''"
  "displayName magnetic_button_info = ''Magnetic Button''"
  "displayName pulse_button_info = ''Pulse Button''"
  "displayName gradient_button_info = ''Gradient Button''"
  "displayName neon_button_info = ''Neon Button''"
  "displayName shine_button_info = ''Shine Button''"
  "displayName copy_button_info = ''Copy Button''"
  "displayName expanding_button_info = ''Expanding Button''"
  "displayName tilt_button_info = ''Tilt Button''"
  "displayName gradient_text_info = ''Gradient Text''"
  "displayName typing_text_info = ''Typing Text''"
  "displayName shimmering_text_info = ''Shimmering Text''"
  "displayName counting_number_info = ''Counting Number''"
  "displayName sliding_number_info = ''Sliding Number''"
  "displayName rolling_text_info = ''Rolling Text''"
  "displayName rotating_text_info = ''Rotating Text''"
  "displayName splitting_text_info = ''Splitting Text''"
  "displayName highlight_text_info = ''Highlight Text''"
  "displayName writing_text_info = ''Writing Text''"
  by (simp_all add: info_defs)

lemma keys_distinct: "distinct (map fst COMPONENT_LIBRARY)"
  by (simp add: COMPONENT_LIBRARY_def)

lemma keys_normalized: "list_all (\<lambda>k. trim (toLowerCase k) = k) (map fst COMPONENT_LIBRARY)"
  by (simp add: COMPONENT_LIBRARY_def trim_def lower_simps isWhiteSpace_def)

lemma key_normalized:
  assumes "(k, c) \<in> set COMPONENT_LIBRARY"
  shows "trim (toLowerCase k) = k"
proof -
  from assms have "k \<in> set (map fst COMPONENT_LIBRARY)" by force
  with keys_normalized show ?thesis by (auto simp: list_all_iff)
qed

lemma keys_no_space: "list_all (\<lambda>k. \<not> list_ex isWhiteSpace k) (map fst COMPONENT_LIBRARY)"
  by (simp add: COMPONENT_LIBRARY_def isWhiteSpace_def)

lemma library_member:
  assumes "(k, c) \<in> set COMPONENT_LIBRARY"
  shows "map_of COMPONENT_LIBRARY k = Some c"
  using keys_distinct assms by (rule map_of_is_SomeI)

lemma library_no_member:
  assumes "k \<notin> set (map fst COMPONENT_LIBRARY)"
  shows "map_of COMPONENT_LIBRARY k = None"
  using assms by (simp add: map_of_eq_None_iff)

lemma names_distinct: "distinct (map (\<lambda>e. componentName (snd e)) COMPONENT_LIBRARY)"
proof -
  have names: "map (\<lambda>e. componentName (snd e)) COMPONENT_LIBRARY
                 = (map fst COMPONENT_LIBRARY)[5 := ''radio-group'']"
    by (simp add: COMPONENT_LIBRARY_def component_names)
  have "''radio-group'' \<notin> set (map fst COMPONENT_LIBRARY)"
    by (simp add: COMPONENT_LIBRARY_def)
  with keys_distinct show ?thesis
    unfolding names by (simp add: distinct_list_update)
qed

lemma names_eq_keys:
  "list_all (\<lambda>e. fst e = ''radio'' \<or> componentName (snd e) = fst e) COMPONENT_LIBRARY"
  by (simp add: COMPONENT_LIBRARY_def component_names)



lemma library_entry_unique:
  assumes "(k, c) \<in> set COMPONENT_LIBRARY" "(k, c') \<in> set COMPONENT_LIBRARY"
  shows "c' = c"
  using assms keys_distinct by (metis map_of_is_SomeI option.inject)

lemma library_name_unique:
  assumes "e \<in> set COMPONENT_LIBRARY" "e' \<in> set COMPONENT_LIBRARY"
    and "componentName (snd e') = componentName (snd e)"
  shows "e' = e"
  using names_distinct assms by (auto simp: distinct_map inj_on_def)

lemma alias_keys_distinct: "distinct (map fst aliases)"
  by (simp add: aliases_def)

lemma alias_keys_normalized: "list_all (\<lambda>a. trim (toLowerCase a) = a) (map fst aliases)"
  by (simp add: aliases_def trim_def lower_simps isWhiteSpace_def)

lemma alias_targets:
  "list_all (\<lambda>e. snd e = ''radio-group'' \<or> snd e \<in> set (map fst COMPONENT_LIBRARY)) aliases"
  by (simp add: aliases_def COMPONENT_LIBRARY_def)

lemma priorities_positive: "list_all (\<lambda>e. 0 < priority (snd e)) VISUAL_PATTERNS"
  by (simp add: VISUAL_PATTERNS_def)

lemma pattern_components_nonempty: "list_all (\<lambda>e. components (snd e) \<noteq> []) VISUAL_PATTERNS"
  by (simp add: VISUAL_PATTERNS_def)

lemma pattern_components_keys:
  "list_all (\<lambda>e. list_all (\<lambda>n. n \<noteq> ''radio'' \<and> n \<in> set (map fst COMPONENT_LIBRARY))
      (components (snd e))) VISUAL_PATTERNS"
  by (simp add: VISUAL_PATTERNS_def COMPONENT_LIBRARY_def)


section \<open>Lemmas about the ranked search\<close>

lemma split_ws_no_space:
  "\<not> list_ex isWhiteSpace s \<Longrightarrow> split_ws s = [s]"
  by (induction s) auto

lemma scoreComponents_eq:
  "scoreComponents q cs =
     map (\<lambda>c. \<lparr>component = c, score = componentScore q c\<rparr>)
       (filter (\<lambda>c. componentScore q c > 0) cs)"
  by (induction cs) (simp_all add: Let_def)

lemma slice0_take: "\<exists>m. slice0 xs n = take m xs"
  by (auto simp: slice0_def)


lemma rankedList_member:
  "sc \<in> set (rankedList q cs) \<Longrightarrow>
     score sc = componentScore q (component sc) \<and> score sc > 0 \<and> component sc \<in> set cs"
  by (auto simp: rankedList_def scoreComponents_eq)

lemma rankedList_sorted: "sorted_wrt (\<lambda>a b. score a \<ge> score b) (rankedList q cs)"
proof -
  have "sorted (map (\<lambda>sc. - score sc) (rankedList q cs))"
    by (simp add: rankedList_def)
  then show ?thesis
    by (simp add: sorted_wrt_map)
qed

lemma search_unfold:
  "searchComponentsRanked query cat lim =
     map component (slice0 (rankedList (trim (toLowerCase query)) (componentsToSearch cat))
       (case lim of None \<Rightarrow> 10 | Some n \<Rightarrow> n))"
  by (simp add: searchComponentsRanked_def rankedList_def Let_def)


lemma rankedList_head:
  assumes c: "c \<in> set cs" and pos: "0 < componentScore q c"
    and best: "\<And>c'. c' \<in> set cs \<Longrightarrow> c' \<noteq> c \<Longrightarrow> componentScore q c' < componentScore q c"
  shows "\<exists>rest. rankedList q cs = \<lparr>component = c, score = componentScore q c\<rparr> # rest"
proof -
  let ?x = "\<lparr>component = c, score = componentScore q c\<rparr>"
  have x: "?x \<in> set (rankedList q cs)"
    using c pos by (simp add: rankedList_def scoreComponents_eq)
  then obtain h rest where hr: "rankedList q cs = h # rest"
    by (cases "rankedList q cs") auto
  have hmem: "h \<in> set (rankedList q cs)" by (simp add: hr)
  note hfacts = rankedList_member [OF hmem]
  have ge: "score ?x \<le> score h"
    using rankedList_sorted [of q cs] x unfolding hr by auto
  have "component h = c"
  proof (rule ccontr)
    assume "component h \<noteq> c"
    with best hfacts have "componentScore q (component h) < componentScore q c" by blast
    with ge hfacts show False by simp
  qed
  with hfacts have "h = ?x" by simp
  with hr show ?thesis by blast
qed

lemma search_first:
  assumes c: "c \<in> set (componentsToSearch cat)"
    and pos: "0 < componentScore (trim (toLowerCase query)) c"
    and best: "\<And>c'. c' \<in> set (componentsToSearch cat) \<Longrightarrow> c' \<noteq> c \<Longrightarrow>
                 componentScore (trim (toLowerCase query)) c' < componentScore (trim (toLowerCase query)) c"
    and lim: "1 \<le> n"
  shows "take 1 (searchComponentsRanked query cat (Some n)) = [c]"
proof -
  from rankedList_head [OF c pos best] obtain rest where
    "rankedList (trim (toLowerCase query)) (componentsToSearch cat)
       = \<lparr>component = c, score = componentScore (trim (toLowerCase query)) c\<rparr> # rest"
    by blast
  moreover from lim obtain m where "nat n = Suc m" by (cases "nat n") auto
  ultimately show ?thesis
    using lim by (simp add: search_unfold slice0_def)
qed


section \<open>Ranked search: order of the result\<close>

text \<open>
  C5: for every query, category filter and limit, the list that
  \<open>searchComponentsRanked\<close> returns is sorted by non-increasing score, and every returned
  component has a positive score: a component that scores 0 is left out of the result.
  The score of a returned component is \<open>componentScore\<close> on the normalized query, the
  value the loop stored beside it.
\<close>

theorem ranked_sorted_positive:
  "sorted_wrt (\<lambda>a b. a \<ge> b)
     (map (componentScore (trim (toLowerCase query))) (searchComponentsRanked query cat lim))
   \<and> list_all (\<lambda>c. componentScore (trim (toLowerCase query)) c > 0)
        (searchComponentsRanked query cat lim)"
proof -
  define q where "q = trim (toLowerCase query)"
  define ys where "ys = slice0 (rankedList q (componentsToSearch cat))
                          (case lim of None \<Rightarrow> 10 | Some n \<Rightarrow> n)"
  obtain m where m: "ys = take m (rankedList q (componentsToSearch cat))"
    unfolding ys_def using slice0_take by blast
  have sub: "set ys \<subseteq> set (rankedList q (componentsToSearch cat))"
    unfolding m by (rule set_take_subset)
  have res: "searchComponentsRanked query cat lim = map component ys"
    by (simp add: search_unfold ys_def q_def)
  have sc: "map (componentScore q) (map component ys) = map score ys"
    using sub rankedList_member by (auto simp: subset_iff)
  have "sorted_wrt (\<lambda>a b. score a \<ge> score b) ys"
    unfolding m by (rule sorted_wrt_take) (rule rankedList_sorted)
  then have s: "sorted_wrt (\<lambda>a b. a \<ge> b) (map score ys)"
    by (simp add: sorted_wrt_map)
  have "0 < componentScore q (component sc)" if "sc \<in> set ys" for sc
  proof -
    from that sub have "sc \<in> set (rankedList q (componentsToSearch cat))" by auto
    from rankedList_member [OF this] show ?thesis by simp
  qed
  then have p: "list_all (\<lambda>c. componentScore q c > 0) (map component ys)"
    by (simp add: list_all_iff)
  show ?thesis
    using s p unfolding res sc q_def [symmetric] by simp
qed

section \<open>Ranked search: the empty query\<close>











section \<open>Ranked search: searching for a table key\<close>

lemma radio_key: "map_of COMPONENT_LIBRARY ''radio'' = Some radio_info"
  by (rule library_member) (simp add: COMPONENT_LIBRARY_def)

lemma radio_rivals:
  "list_all (\<lambda>e. fst e = ''radio''
      \<or> (componentName (snd e) \<noteq> ''radio''
          \<and> toLowerCase (displayName (snd e)) \<noteq> ''radio''
          \<and> \<not> startsWith (componentName (snd e)) ''radio'')) COMPONENT_LIBRARY"
  by (simp add: COMPONENT_LIBRARY_def component_names component_display_names
        lower_simps)

lemma score_exact_name:
  "componentName c = q \<Longrightarrow> \<not> list_ex isWhiteSpace q \<Longrightarrow> componentScore q c = 100"
  by (simp add: componentScore_def split_ws_no_space)

lemma score_other_name:
  "componentName c \<noteq> q \<Longrightarrow> \<not> list_ex isWhiteSpace q \<Longrightarrow> componentScore q c \<le> 90"
  by (simp add: componentScore_def split_ws_no_space)

lemma score_no_prefix:
  "componentName c \<noteq> q \<Longrightarrow> toLowerCase (displayName c) \<noteq> q
   \<Longrightarrow> \<not> startsWith (componentName c) q \<Longrightarrow> \<not> list_ex isWhiteSpace q
   \<Longrightarrow> componentScore q c \<le> 70"
  by (simp add: componentScore_def split_ws_no_space)

lemma radio_score: "componentScore ''radio'' radio_info = 80"
  by (simp add: componentScore_def component_names component_display_names
        lower_simps isWhiteSpace_def)

text \<open>
  For every key of the table, the ranked search for the key with no category filter and a
  limit of at least 1 puts the record stored under the key first, with a score above that
  of every other record; the score is 100 when the record's \<open>componentName\<close> is the key.
\<close>

lemma key_search_first:
  assumes kc: "(k, c) \<in> set COMPONENT_LIBRARY" and lim: "1 \<le> n"
  shows "take 1 (searchComponentsRanked k None (Some n)) = [c]
         \<and> 0 < componentScore k c
         \<and> (\<forall>c' \<in> snd ` set COMPONENT_LIBRARY. c' \<noteq> c \<longrightarrow> componentScore k c' < componentScore k c)
         \<and> (componentName c = k \<longrightarrow> componentScore k c = 100)"
proof -
  have norm: "trim (toLowerCase k) = k" by (rule key_normalized [OF kc])
  from kc have "k \<in> set (map fst COMPONENT_LIBRARY)" by force
  with keys_no_space have ns: "\<not> list_ex isWhiteSpace k" by (auto simp: list_all_iff)
  have cmem: "c \<in> set (componentsToSearch None)"
    using kc by (force simp: componentsToSearch_def)
  have exact: "componentName c = k \<longrightarrow> componentScore k c = 100"
    using ns by (simp add: score_exact_name)
  have main: "0 < componentScore k c
     \<and> (\<forall>c' \<in> snd ` set COMPONENT_LIBRARY. c' \<noteq> c \<longrightarrow> componentScore k c' < componentScore k c)"
  proof (cases "k = ''radio''")
    case True
    with kc radio_key have c_eq: "c = radio_info"
      by (metis map_of_is_SomeI keys_distinct option.inject)
    have "componentScore ''radio'' c' < 80" if "c' \<in> snd ` set COMPONENT_LIBRARY" "c' \<noteq> c" for c'
    proof -
      from that(1) obtain k' where e: "(k', c') \<in> set COMPONENT_LIBRARY" by auto
      have "k' \<noteq> ''radio''"
        using library_entry_unique [OF kc] e that(2) True by auto
      with radio_rivals e have "componentName c' \<noteq> ''radio''"
        "toLowerCase (displayName c') \<noteq> ''radio''" "\<not> startsWith (componentName c') ''radio''"
        by (auto simp: list_all_iff)
      from score_no_prefix [OF this] ns True show ?thesis by simp
    qed
    with True c_eq radio_score show ?thesis by simp
  next
    case False
    with names_eq_keys kc have name: "componentName c = k" by (auto simp: list_all_iff)
    have "componentScore k c' < 100" if "c' \<in> snd ` set COMPONENT_LIBRARY" "c' \<noteq> c" for c'
    proof -
      from that(1) obtain k' where e: "(k', c') \<in> set COMPONENT_LIBRARY" by auto
      have "componentName c' \<noteq> k"
        using library_name_unique [OF kc e] name that(2) by auto
      from score_other_name [OF this ns] show ?thesis by simp
    qed
    with score_exact_name [OF name ns] show ?thesis by simp
  qed
  have "take 1 (searchComponentsRanked k None (Some n)) = [c]"
  proof (rule search_first [OF cmem _ _ lim])
    show "0 < componentScore (trim (toLowerCase k)) c" using main norm by simp
  next
    fix c' assume "c' \<in> set (componentsToSearch None)" "c' \<noteq> c"
    then show "componentScore (trim (toLowerCase k)) c' < componentScore (trim (toLowerCase k)) c"
      using main norm by (auto simp: componentsToSearch_def)
  qed
  with main exact show ?thesis by blast
qed

text \<open>
  C1 as stated fails at the key \<open>radio\<close>: the search scores a record against its
  \<open>componentName\<close> and never reads the table key. The record stored under \<open>radio\<close> is
  named \<open>radio-group\<close>, so the search for \<open>radio\<close> scores it 80, as a prefix of its
  name, and not 100. The record is still the first result.
\<close>

theorem radio_key_search:
  "(''radio'', radio_info) \<in> set COMPONENT_LIBRARY
   \<and> trim (toLowerCase ''radio'') = ''radio''
   \<and> componentScore ''radio'' radio_info = 80
   \<and> take 1 (searchComponentsRanked ''radio'' None (Some 1)) = [radio_info]"
proof -
  have e: "(''radio'', radio_info) \<in> set COMPONENT_LIBRARY"
    using radio_key by (rule map_of_SomeD)
  have "(1::int) \<le> 1" by simp
  from key_search_first [OF e this] key_normalized [OF e] radio_score e
  show ?thesis by simp
qed

text \<open>
  C1, amended: for every key \<open>k\<close> of the component table, \<open>searchComponentsRanked\<close> on
  \<open>k\<close> with no category filter and a limit of at least 1 returns the component stored
  under \<open>k\<close> as its first result, its score being positive and strictly above the score
  of every other component for that query; the score is 100 whenever the \<open>componentName\<close>
  of the record is \<open>k\<close>.
\<close>

theorem key_search_ranks_first:
  assumes "(k, c) \<in> set COMPONENT_LIBRARY" and "1 \<le> n"
  shows "take 1 (searchComponentsRanked k None (Some n)) = [c]
         \<and> 0 < componentScore k c
         \<and> (\<forall>c' \<in> snd ` set COMPONENT_LIBRARY. c' \<noteq> c \<longrightarrow> componentScore k c' < componentScore k c)
         \<and> (componentName c = k \<longrightarrow> componentScore k c = 100)"
  using assms by (rule key_search_first)

theorem key_search_ranks_first_witness:
  "(''button'', button_info) \<in> set COMPONENT_LIBRARY \<and> (1::int) \<le> 3
   \<and> take 1 (searchComponentsRanked ''button'' None (Some 3)) = [button_info]
   \<and> componentScore ''button'' button_info = 100"
proof -
  have e: "(''button'', button_info) \<in> set COMPONENT_LIBRARY"
    by (simp add: COMPONENT_LIBRARY_def)
  have n: "(1::int) \<le> 3" by simp
  from key_search_ranks_first [OF e n] e component_names(1) show ?thesis by simp
qed

section \<open>Ranked search: the score\<close>

lemma tier_sum: "componentScore q c = spec_firstMatchingTier q c + spec_occurrenceBonus q c"
  by (simp add: componentScore_def spec_firstMatchingTier_def spec_occurrenceBonus_def spec_tierLadder_def
        spec_wordsInDescription_def Let_def)

lemma button_button_score: "componentScore ''button button'' button_info = 10"
  by (simp add: componentScore_def button_info_def lower_simps
        isWhiteSpace_def Let_def)

lemma button_button_distinct:
  "spec_firstMatchingTier ''button button'' button_info + spec_distinctWordBonus ''button button'' button_info = 5"
  by (simp add: spec_firstMatchingTier_def spec_tierLadder_def spec_distinctWordBonus_def spec_wordsInDescription_def
        button_info_def lower_simps isWhiteSpace_def Let_def)

text \<open>
  C2 as stated fails on a query that repeats a word: for the query \<open>button button\<close> the
  record \<open>button\<close> matches no tier, both words of the query occur in its description and
  the score is 10, where one distinct word would give 5.
\<close>

theorem distinct_word_bonus_counterexample:
  "componentScore ''button button'' button_info = 10
   \<and> spec_firstMatchingTier ''button button'' button_info
       + spec_distinctWordBonus ''button button'' button_info = 5"
  using button_button_score button_button_distinct by simp

text \<open>
  C2, amended: for every component and every normalized query, the score is the points of
  the first rule of the ladder that matches (exact name 100, exact display name 90, name
  prefix 80, display-name prefix 70, name contains 60, display name contains 50, exact tag
  40, tag contains 30, description contains 20, otherwise 0), with no stacking of tiers,
  plus, only when the query has more than one word, 5 for every word of the query that
  occurs in the description, a repeated word counting each time.
\<close>

theorem score_is_tier_plus_bonus:
  "componentScore q c = spec_firstMatchingTier q c + spec_occurrenceBonus q c"
  by (rule tier_sum)


section \<open>Single-result lookup: exact key\<close>

lemma findComponent_key:
  assumes "(k, c) \<in> set COMPONENT_LIBRARY"
  shows "findComponent k = Some c"
proof -
  have "map_of COMPONENT_LIBRARY k = Some c"
    using keys_distinct assms by (rule map_of_is_SomeI)
  then show ?thesis
    by (simp add: findComponent_def key_normalized [OF assms])
qed

text \<open>
  C9: for every entry of the component table, \<open>findComponent\<close> applied to the entry's key
  returns the entry's record. The keys are lower-case, carry no white space at either end
  and are pairwise distinct, so the normalized query is the key and the direct match finds
  the entry.
\<close>

theorem exact_key_lookup:
  assumes "(k, c) \<in> set COMPONENT_LIBRARY"
  shows "findComponent k = Some c"
  using assms by (rule findComponent_key)

theorem exact_key_lookup_witness:
  "(''radio'', radio_info) \<in> set COMPONENT_LIBRARY \<and> findComponent ''radio'' = Some radio_info"
proof -
  have h: "(''radio'', radio_info) \<in> set COMPONENT_LIBRARY"
    by (simp add: COMPONENT_LIBRARY_def)
  from exact_key_lookup [OF h] h show ?thesis by simp
qed

section \<open>Single-result lookup: aliases\<close>

lemma alias_lookup:
  assumes ak: "(a, k) \<in> set aliases" and nokey: "map_of COMPONENT_LIBRARY a = None"
  shows "findComponent a = map_of COMPONENT_LIBRARY k"
proof -
  from ak have "a \<in> set (map fst aliases)" by force
  with alias_keys_normalized have norm: "trim (toLowerCase a) = a"
    by (auto simp: list_all_iff)
  have "map_of aliases a = Some k"
    using alias_keys_distinct ak by (rule map_of_is_SomeI)
  with nokey norm show ?thesis
    by (simp add: findComponent_def)
qed

lemma alias_same_record:
  assumes "(a, k) \<in> set aliases" and "map_of COMPONENT_LIBRARY a = None"
    and "map_of COMPONENT_LIBRARY k = Some c"
  shows "findComponent a = findComponent k \<and> findComponent k = Some c"
  using alias_lookup [OF assms(1,2)] findComponent_key [OF map_of_SomeD [OF assms(3)]] assms(3)
  by simp

lemma modal_alias: "(''modal'', ''dialog'') \<in> set aliases"
  by (simp add: aliases_def)

lemma modal_no_key: "map_of COMPONENT_LIBRARY ''modal'' = None"
  by (rule library_no_member) (simp add: COMPONENT_LIBRARY_def)

lemma dialog_key: "map_of COMPONENT_LIBRARY ''dialog'' = Some dialog_info"
  by (rule library_member) (simp add: COMPONENT_LIBRARY_def)

lemma label_alias: "(''label'', ''badge'') \<in> set aliases"
  by (simp add: aliases_def)

lemma label_key: "(''label'', label_info) \<in> set COMPONENT_LIBRARY"
  by (simp add: COMPONENT_LIBRARY_def)

lemma badge_key: "(''badge'', badge_info) \<in> set COMPONENT_LIBRARY"
  by (simp add: COMPONENT_LIBRARY_def)

lemma label_not_badge: "label_info \<noteq> badge_info"
proof
  assume "label_info = badge_info"
  then have "componentName label_info = componentName badge_info" by simp
  then show False by (simp add: component_names)
qed

text \<open>
  C3 as stated fails for the alias \<open>label\<close> of \<open>badge\<close>: \<open>label\<close> is itself a key of the
  table, the direct match comes first, and \<open>findComponent\<close> returns the record \<open>label\<close>.
\<close>

theorem alias_counterexample:
  "(''label'', ''badge'') \<in> set aliases \<and> findComponent ''label'' \<noteq> findComponent ''badge''"
  using label_alias findComponent_key [OF label_key] findComponent_key [OF badge_key]
    label_not_badge
  by simp

text \<open>
  C3, amended: for every entry \<open>(a, k)\<close> of the alias table whose alias \<open>a\<close> is not itself
  a key of the component table and whose target \<open>k\<close> is a key of it, \<open>findComponent a\<close>
  returns the same record as \<open>findComponent k\<close>, the record stored under \<open>k\<close>.
\<close>

theorem alias_returns_target_record:
  assumes "(a, k) \<in> set aliases" and "map_of COMPONENT_LIBRARY a = None"
    and "map_of COMPONENT_LIBRARY k = Some c"
  shows "findComponent a = findComponent k \<and> findComponent k = Some c"
  using assms by (rule alias_same_record)

theorem alias_returns_target_record_witness:
  "(''modal'', ''dialog'') \<in> set aliases \<and> map_of COMPONENT_LIBRARY ''modal'' = None
   \<and> map_of COMPONENT_LIBRARY ''dialog'' = Some dialog_info
   \<and> findComponent ''modal'' = findComponent ''dialog''
   \<and> findComponent ''dialog'' = Some dialog_info"
  using alias_returns_target_record [OF modal_alias modal_no_key dialog_key]
    modal_alias modal_no_key dialog_key
  by simp

section \<open>Single-result lookup: the record stored under the key radio\<close>

lemma radio_group_no_key: "map_of COMPONENT_LIBRARY ''radio-group'' = None"
  by (rule library_no_member) (simp add: COMPONENT_LIBRARY_def)

lemma radio_listed: "''radio-group'' \<in> set (map summaryName (listComponents [] None None))"
  by (simp add: listComponents_def getAllComponents_def COMPONENT_LIBRARY_def component_names)

lemma radio_aliases:
  "map_of aliases ''radio button'' = Some ''radio-group''"
  "map_of aliases ''radiobutton'' = Some ''radio-group''"
  by (simp_all add: aliases_def)

lemma radio_alias_not_keys:
  "map_of COMPONENT_LIBRARY ''radio button'' = None"
  "map_of COMPONENT_LIBRARY ''radiobutton'' = None"
  by (rule library_no_member, simp add: COMPONENT_LIBRARY_def)+

lemma radio_alias_normalized:
  "trim (toLowerCase ''radio button'') = ''radio button''"
  "trim (toLowerCase ''radiobutton'') = ''radiobutton''"
  by (simp_all add: trim_def lower_simps isWhiteSpace_def)

lemma radio_alias_lookup:
  "findComponent ''radio button'' = None" "findComponent ''radiobutton'' = None"
  by (simp_all add: findComponent_def radio_alias_normalized radio_alias_not_keys
        radio_aliases radio_group_no_key)

text \<open>
  C10: the record whose \<open>componentName\<close> is \<open>radio-group\<close> is stored under the key
  \<open>radio\<close>. \<open>getComponentByName\<close> finds nothing under \<open>radio-group\<close>, although
  \<open>listComponents\<close> (here with the empty query, which lists the whole table) reports a
  component of that name; and \<open>findComponent\<close> on the aliases \<open>radio button\<close> and
  \<open>radiobutton\<close>, which the alias table maps to \<open>radio-group\<close>, returns no record.
\<close>

theorem radio_group_missed:
  "map_of COMPONENT_LIBRARY ''radio'' = Some radio_info
   \<and> componentName radio_info = ''radio-group''
   \<and> getComponentByName ''radio-group'' = None
   \<and> ''radio-group'' \<in> set (map summaryName (listComponents [] None None))
   \<and> map_of aliases ''radio button'' = Some ''radio-group''
   \<and> map_of aliases ''radiobutton'' = Some ''radio-group''
   \<and> findComponent ''radio button'' = None
   \<and> findComponent ''radiobutton'' = None"
  using radio_key component_names(6) radio_group_no_key radio_listed radio_aliases
    radio_alias_lookup
  by (simp add: getComponentByName_def)

section \<open>Single-result lookup: the order of the rules\<close>

text \<open>
  \<open>findComponent\<close> tries the direct match, then the alias table, then the tags, then the
  keys. As modelled, with the tables read as the maps their literals list, it agrees with
  the first rule that produces a record on every query but the two aliases of
  \<open>radio-group\<close>; and \<open>modal\<close> reaches the record \<open>dialog\<close> through the alias
  table, the direct match finding nothing.
\<close>

lemma findComponent_rules:
  "findComponent query =
     (let q = trim (toLowerCase query)
      in case spec_exactKeyRule q of
           Some c \<Rightarrow> Some c
         | None \<Rightarrow> (case map_of aliases q of
                      Some k \<Rightarrow> map_of COMPONENT_LIBRARY k
                    | None \<Rightarrow> (case spec_tagRule q of Some c \<Rightarrow> Some c | None \<Rightarrow> spec_keyRule q)))"
  by (auto simp add: findComponent_def spec_exactKeyRule_def spec_tagRule_def spec_keyRule_def Let_def
        case_prod_unfold split: option.splits)

lemma lookup_agrees:
  assumes "trim (toLowerCase query) \<noteq> ''radio button''"
    and "trim (toLowerCase query) \<noteq> ''radiobutton''"
  shows "findComponent query = spec_findComponent query"
proof -
  define q where "q = trim (toLowerCase query)"
  show ?thesis
  proof (cases "map_of aliases q")
    case None
    then show ?thesis
      by (simp add: findComponent_rules spec_findComponent_def spec_aliasRule_def q_def [symmetric]
            split: option.splits)
  next
    case (Some k)
    then have mem: "(q, k) \<in> set aliases" by (rule map_of_SomeD)
    have kr: "k \<noteq> ''radio-group''"
    proof
      assume "k = ''radio-group''"
      with mem have "(q, ''radio-group'') \<in> set aliases" by simp
      then have "q = ''radio button'' \<or> q = ''radiobutton''"
        by (simp add: aliases_def)
      with assms show False by (simp add: q_def)
    qed
    from alias_targets mem have "snd (q, k) = ''radio-group'' \<or> snd (q, k) \<in> set (map fst COMPONENT_LIBRARY)"
      unfolding list_all_iff by (rule bspec)
    with kr have "k \<in> set (map fst COMPONENT_LIBRARY)"
      by simp
    then have "map_of COMPONENT_LIBRARY k \<noteq> None"
      by (simp add: map_of_eq_None_iff)
    with Some show ?thesis
      by (auto simp add: findComponent_rules spec_findComponent_def spec_aliasRule_def q_def [symmetric]
            split: option.splits)
  qed
qed

lemma button_tags: "tags button_info = [''button'', ''click'', ''action'', ''primary'', ''secondary'']"
  by (simp add: button_info_def)

lemma radio_button_by_tag: "spec_tagRule ''radio button'' = Some button_info"
  by (simp add: spec_tagRule_def COMPONENT_LIBRARY_def button_tags)

lemma radio_button_by_rules: "spec_findComponent ''radio button'' = Some button_info"
  by (simp add: spec_findComponent_def radio_alias_normalized spec_exactKeyRule_def spec_aliasRule_def
        radio_alias_not_keys radio_aliases radio_group_no_key radio_button_by_tag)

lemma modal_by_alias:
  "findComponent ''modal'' = Some dialog_info \<and> spec_exactKeyRule ''modal'' = None
   \<and> spec_aliasRule ''modal'' = Some dialog_info"
  using alias_lookup [OF modal_alias modal_no_key] modal_no_key dialog_key
    map_of_is_SomeI [OF alias_keys_distinct modal_alias]
  by (simp add: spec_exactKeyRule_def spec_aliasRule_def)

text \<open>
  C7 at the query \<open>radio button\<close>: the alias table has the entry, its target
  \<open>radio-group\<close> is no key of the component table, and \<open>findComponent\<close> returns nothing
  without trying the later rules. The first rule that produces a record is the tag rule:
  the record \<open>button\<close>, the first of the table, has the tag \<open>button\<close>, a substring of the
  query.
\<close>

theorem radio_button_lookup_diverges:
  "findComponent ''radio button'' = None \<and> spec_findComponent ''radio button'' = Some button_info"
  using radio_alias_lookup(1) radio_button_by_rules by simp


section \<open>Visual pattern matcher: the returned components\<close>

lemma setAdd_set: "set (setAdd m n) = insert n (set m)"
  by (auto simp: setAdd_def)

lemma setAdd_distinct: "distinct m \<Longrightarrow> distinct (setAdd m n)"
  by (simp add: setAdd_def)

lemma addAll_fst:
  "set (fst (foldl (addPatternComponent pr) st cs)) = set (fst st) \<union> set cs"
  by (induction cs arbitrary: st) (auto simp: addPatternComponent_def setAdd_set)

lemma addAll_distinct:
  "distinct (fst st) \<Longrightarrow> distinct (fst (foldl (addPatternComponent pr) st cs))"
  by (induction cs arbitrary: st) (simp_all add: addPatternComponent_def setAdd_distinct)

lemma addAll_snd:
  "snd (foldl (addPatternComponent pr) st cs) n =
     (if n \<in> set cs then Some (max (orZero (snd st n)) pr) else snd st n)"
  by (induction cs arbitrary: st) (auto simp: addPatternComponent_def orZero_def)

lemma find_case_list_ex:
  "(case find P xs of Some kw \<Rightarrow> a | None \<Rightarrow> b) = (if list_ex P xs then a else b)"
  by (induction xs) auto

lemma matchPatterns_Cons:
  "matchPatterns la (e # rest) st =
     matchPatterns la rest
       (if list_ex (includes_str la) (keywords_vp (snd e))
        then foldl (addPatternComponent (priority (snd e))) st (components (snd e)) else st)"
  by (simp add: find_case_list_ex)

lemma matchPatterns_none:
  "patternsMatching la ps = [] \<Longrightarrow> matchPatterns la ps st = st"
proof (induction ps arbitrary: st)
  case Nil
  show ?case by simp
next
  case (Cons e rest)
  from Cons.prems have "\<not> list_ex (includes_str la) (keywords_vp (snd e))"
    and "patternsMatching la rest = []"
    by (auto simp: patternsMatching_def split: if_splits)
  with Cons.IH show ?case by (simp only: matchPatterns_Cons if_False)
qed

lemma matchPatterns_fst:
  "set (fst (matchPatterns la ps st)) =
     set (fst st) \<union> (\<Union>p \<in> set (patternsMatching la ps). set (components p))"
proof (induction ps arbitrary: st)
  case Nil
  show ?case by (simp add: patternsMatching_def)
next
  case (Cons e rest)
  show ?case
    unfolding matchPatterns_Cons Cons.IH
    by (auto simp: patternsMatching_def addAll_fst)
qed

lemma matchPatterns_distinct:
  "distinct (fst st) \<Longrightarrow> distinct (fst (matchPatterns la ps st))"
proof (induction ps arbitrary: st)
  case Nil
  then show ?case by simp
next
  case (Cons e rest)
  show ?case
    unfolding matchPatterns_Cons
    by (rule Cons.IH) (simp add: addAll_distinct Cons.prems)
qed

lemma matchPatterns_dom:
  "snd (matchPatterns la ps st) n = None \<longleftrightarrow>
     snd st n = None \<and> n \<notin> (\<Union>p \<in> set (patternsMatching la ps). set (components p))"
proof (induction ps arbitrary: st)
  case Nil
  show ?case by (simp add: patternsMatching_def)
next
  case (Cons e rest)
  show ?case
    unfolding matchPatterns_Cons Cons.IH
    by (auto simp: patternsMatching_def addAll_snd)
qed

lemma matchPatterns_priority:
  "orZero (snd (matchPatterns la ps st) n) =
     fold max (suggestingPriorities (patternsMatching la ps) n) (orZero (snd st n))"
proof (induction ps arbitrary: st)
  case Nil
  show ?case by (simp add: patternsMatching_def suggestingPriorities_def)
next
  case (Cons e rest)
  show ?case
    unfolding matchPatterns_Cons Cons.IH
    by (simp add: patternsMatching_def suggestingPriorities_def addAll_snd orZero_def max.commute)
qed

lemma fold_max_Max:
  assumes "xs \<noteq> []" and "\<forall>x \<in> set xs. (0::int) < x"
  shows "fold max xs 0 = Max (set xs)"
proof -
  have "fold max xs 0 = Max (set (0 # xs))"
    by (rule Max.set_eq_fold [symmetric])
  also have "\<dots> = max 0 (Max (set xs))"
    using assms(1) by simp
  also have "\<dots> = Max (set xs)"
  proof -
    from assms(1) have "Max (set xs) \<in> set xs" by (intro Max_in) simp_all
    with assms(2) have "0 < Max (set xs)" by blast
    then show ?thesis by simp
  qed
  finally show ?thesis .
qed

lemma key_lookup_name:
  assumes "n \<in> set (map fst COMPONENT_LIBRARY)" and "n \<noteq> ''radio''"
  shows "\<exists>c. getComponentByName n = Some c \<and> componentName c = n"
proof -
  from assms(1) obtain c where e: "(n, c) \<in> set COMPONENT_LIBRARY" by auto
  have "map_of COMPONENT_LIBRARY n = Some c"
    using keys_distinct e by (rule map_of_is_SomeI)
  moreover from names_eq_keys e assms(2) have "componentName c = n"
    by (auto simp: list_all_iff)
  ultimately show ?thesis by (simp add: getComponentByName_def)
qed

lemma map_filter_found:
  assumes "\<forall>n \<in> set ns. \<exists>c. g n = Some c \<and> componentName c = n"
  shows "map componentName (List.map_filter g ns) = ns
         \<and> (\<forall>c \<in> set (List.map_filter g ns). g (componentName c) = Some c)"
  using assms
proof (induction ns)
  case Nil
  show ?case by (simp add: map_filter_simps)
next
  case (Cons n ns)
  then obtain c where "g n = Some c" "componentName c = n" by auto
  with Cons show ?case by (auto simp: map_filter_simps)
qed

lemma matched_names_found:
  assumes "n \<in> (\<Union>p \<in> set (matchedPatterns analysis). set (components p))"
  shows "\<exists>c. getComponentByName n = Some c \<and> componentName c = n"
proof -
  from assms obtain p where p: "p \<in> snd ` set VISUAL_PATTERNS" "n \<in> set (components p)"
    by (auto simp: matchedPatterns_def patternsMatching_def)
  with pattern_components_keys have "n \<noteq> ''radio'' \<and> n \<in> set (map fst COMPONENT_LIBRARY)"
    by (auto simp: list_all_iff)
  then show ?thesis using key_lookup_name by blast
qed

lemma suggesting_positive:
  "\<forall>x \<in> set (suggestingPriorities (matchedPatterns analysis) n). 0 < x"
  using priorities_positive
  by (auto simp: suggestingPriorities_def matchedPatterns_def patternsMatching_def list_all_iff)

lemma suggesting_nonempty:
  assumes "n \<in> (\<Union>p \<in> set (matchedPatterns analysis). set (components p))"
  shows "suggestingPriorities (matchedPatterns analysis) n \<noteq> []"
  using assms by (auto simp: suggestingPriorities_def filter_empty_conv)

lemma matched_components_nonempty:
  assumes "matchedPatterns analysis \<noteq> []"
  shows "(\<Union>p \<in> set (matchedPatterns analysis). set (components p)) \<noteq> {}"
proof -
  from assms obtain p where p: "p \<in> set (matchedPatterns analysis)"
    by (cases "matchedPatterns analysis") auto
  then have "p \<in> snd ` set VISUAL_PATTERNS"
    by (auto simp: matchedPatterns_def patternsMatching_def)
  with pattern_components_nonempty have "components p \<noteq> []"
    by (auto simp: list_all_iff)
  then obtain n where "n \<in> set (components p)" by (cases "components p") auto
  with p show ?thesis by blast
qed

lemma matchState_matched:
  assumes "matchedPatterns analysis \<noteq> []"
  shows "matchState analysis = matchPatterns (toLowerCase analysis) VISUAL_PATTERNS ([], Map.empty)"
proof -
  have "set (fst (matchPatterns (toLowerCase analysis) VISUAL_PATTERNS ([], Map.empty))) \<noteq> {}"
    using matched_components_nonempty [OF assms]
    by (simp add: matchPatterns_fst matchedPatterns_def)
  then show ?thesis
    by (simp add: matchState_def Let_def)
qed

lemma matchState_names:
  assumes "matchedPatterns analysis \<noteq> []"
  shows "set (fst (matchState analysis)) = (\<Union>p \<in> set (matchedPatterns analysis). set (components p))"
    and "distinct (fst (matchState analysis))"
  by (simp_all add: matchState_matched [OF assms] matchPatterns_fst matchPatterns_distinct
        matchedPatterns_def)

lemma matchState_priority:
  assumes "matchedPatterns analysis \<noteq> []"
    and n: "n \<in> (\<Union>p \<in> set (matchedPatterns analysis). set (components p))"
  shows "snd (matchState analysis) n = Some (highestPriority analysis n)"
proof -
  let ?st = "matchPatterns (toLowerCase analysis) VISUAL_PATTERNS ([], Map.empty)"
  have "snd ?st n \<noteq> None"
    using n by (simp add: matchPatterns_dom matchedPatterns_def)
  then obtain v where v: "snd ?st n = Some v" by auto
  have "orZero (snd ?st n)
          = fold max (suggestingPriorities (matchedPatterns analysis) n)
              (orZero (snd (([] :: string list), (Map.empty :: string \<rightharpoonup> int)) n))"
    unfolding matchedPatterns_def by (rule matchPatterns_priority)
  also have "\<dots> = fold max (suggestingPriorities (matchedPatterns analysis) n) 0"
    by (simp add: orZero_def)
  also have "\<dots> = highestPriority analysis n"
    unfolding highestPriority_def
    by (rule fold_max_Max [OF suggesting_nonempty [OF n] suggesting_positive])
  finally show ?thesis
    using v by (simp add: matchState_matched [OF assms(1)] orZero_def)
qed

lemma matched_result:
  assumes m: "matchedPatterns analysis \<noteq> []"
  shows "set (map componentName (fst (matchComponentsFromAnalysis analysis)))
           = (\<Union>p \<in> set (matchedPatterns analysis). set (components p))"
    and "distinct (map componentName (fst (matchComponentsFromAnalysis analysis)))"
    and "list_all (\<lambda>c. getComponentByName (componentName c) = Some c
                      \<and> snd (matchState analysis) (componentName c)
                          = Some (highestPriority analysis (componentName c)))
           (fst (matchComponentsFromAnalysis analysis))"
    and "sorted_wrt (\<lambda>a b. a \<ge> b)
           (map (\<lambda>c. highestPriority analysis (componentName c))
              (fst (matchComponentsFromAnalysis analysis)))"
proof -
  define names where "names = fst (matchState analysis)"
  define prio where "prio = snd (matchState analysis)"
  define found where "found = List.map_filter getComponentByName names"
  define ranked where "ranked = sort_key (\<lambda>c. - orZero (prio (componentName c))) found"
  have res: "fst (matchComponentsFromAnalysis analysis) = ranked"
    by (simp add: matchComponentsFromAnalysis_def Let_def ranked_def found_def names_def prio_def)
  have names_set: "set names = (\<Union>p \<in> set (matchedPatterns analysis). set (components p))"
    and names_distinct: "distinct names"
    unfolding names_def by (rule matchState_names [OF m])+
  have "\<forall>n \<in> set names. \<exists>c. getComponentByName n = Some c \<and> componentName c = n"
    using matched_names_found names_set by blast
  from map_filter_found [OF this]
  have found_names: "map componentName found = names"
    and found_lookup: "\<forall>c \<in> set found. getComponentByName (componentName c) = Some c"
    unfolding found_def by simp_all
  have set_eq: "set ranked = set found"
    by (simp add: ranked_def)
  have found_distinct: "distinct (map componentName found)"
    by (simp add: found_names names_distinct)
  show "set (map componentName (fst (matchComponentsFromAnalysis analysis)))
           = (\<Union>p \<in> set (matchedPatterns analysis). set (components p))"
    unfolding res using set_eq found_names names_set by (metis set_map)
  show "distinct (map componentName (fst (matchComponentsFromAnalysis analysis)))"
    unfolding res using found_distinct set_eq
    by (simp add: distinct_map ranked_def)
  have prio_eq: "prio (componentName c) = Some (highestPriority analysis (componentName c))"
    if "c \<in> set ranked" for c
  proof -
    from that set_eq have "componentName c \<in> set (map componentName found)" by auto
    then have "componentName c \<in> (\<Union>p \<in> set (matchedPatterns analysis). set (components p))"
      by (simp only: found_names names_set)
    from matchState_priority [OF m this] show ?thesis by (simp add: prio_def)
  qed
  show "list_all (\<lambda>c. getComponentByName (componentName c) = Some c
                      \<and> snd (matchState analysis) (componentName c)
                          = Some (highestPriority analysis (componentName c)))
           (fst (matchComponentsFromAnalysis analysis))"
    unfolding res list_all_iff using found_lookup set_eq prio_eq by (auto simp: prio_def)
  have "sorted (map (\<lambda>c. - orZero (prio (componentName c))) ranked)"
    by (simp add: ranked_def)
  then have "sorted_wrt (\<lambda>a b. orZero (prio (componentName a)) \<ge> orZero (prio (componentName b))) ranked"
    by (simp add: sorted_wrt_map)
  then have "sorted_wrt (\<lambda>a b. highestPriority analysis (componentName a)
                               \<ge> highestPriority analysis (componentName b)) ranked"
    by (rule sorted_wrt_mono_rel [rotated]) (simp add: prio_eq orZero_def)
  then show "sorted_wrt (\<lambda>a b. a \<ge> b)
           (map (\<lambda>c. highestPriority analysis (componentName c))
              (fst (matchComponentsFromAnalysis analysis)))"
    unfolding res by (simp add: sorted_wrt_map)
qed

lemma default_lookups:
  "getComponentByName ''button'' = Some button_info"
  "getComponentByName ''card'' = Some card_info"
  "getComponentByName ''input'' = Some input_info"
  unfolding getComponentByName_def
  by (rule library_member, simp add: COMPONENT_LIBRARY_def)+

lemma matchState_default:
  assumes "matchedPatterns analysis = []"
  shows "matchState analysis =
           ([''button'', ''card'', ''input''],
            [''button'' \<mapsto> 5, ''card'' \<mapsto> 5, ''input'' \<mapsto> 5])"
proof -
  have "matchPatterns (toLowerCase analysis) VISUAL_PATTERNS ([], Map.empty) = ([], Map.empty)"
    using assms by (simp add: matchedPatterns_def matchPatterns_none)
  then show ?thesis
    by (simp add: matchState_def Let_def addDefaultComponent_def setAdd_def)
qed

lemma default_result:
  assumes "matchedPatterns analysis = []"
  shows "fst (matchComponentsFromAnalysis analysis) = [button_info, card_info, input_info]"
  by (simp add: matchComponentsFromAnalysis_def Let_def matchState_default [OF assms]
        map_filter_simps default_lookups component_names orZero_def)

lemma default_priorities:
  assumes "matchedPatterns analysis = []"
  shows "list_all (\<lambda>n. snd (matchState analysis) n = Some 5) (fst (matchState analysis))"
  by (simp add: matchState_default [OF assms])

text \<open>
  C8: when no keyword of any pattern occurs in the lower-cased analysis text,
  \<open>matchComponentsFromAnalysis\<close> returns exactly the records \<open>button\<close>, \<open>card\<close> and
  \<open>input\<close>, each at priority 5. When some pattern matches, the names of the returned
  components are the union of the component lists of the matching patterns, each
  component is returned once and is the table's record of its name, its priority is the
  highest among the matching patterns that list it, and the result is sorted by that
  priority, highest first.
\<close>

theorem pattern_match_result:
  "(matchedPatterns analysis = [] \<longrightarrow>
      fst (matchComponentsFromAnalysis analysis) = [button_info, card_info, input_info]
      \<and> fst (matchState analysis) = [''button'', ''card'', ''input'']
      \<and> list_all (\<lambda>n. snd (matchState analysis) n = Some 5) (fst (matchState analysis)))
   \<and> (matchedPatterns analysis \<noteq> [] \<longrightarrow>
      set (map componentName (fst (matchComponentsFromAnalysis analysis)))
        = (\<Union>p \<in> set (matchedPatterns analysis). set (components p))
      \<and> distinct (map componentName (fst (matchComponentsFromAnalysis analysis)))
      \<and> list_all (\<lambda>c. getComponentByName (componentName c) = Some c
                      \<and> snd (matchState analysis) (componentName c)
                          = Some (highestPriority analysis (componentName c)))
           (fst (matchComponentsFromAnalysis analysis))
      \<and> sorted_wrt (\<lambda>a b. a \<ge> b)
           (map (\<lambda>c. highestPriority analysis (componentName c))
              (fst (matchComponentsFromAnalysis analysis))))"
proof (intro conjI impI)
  assume none: "matchedPatterns analysis = []"
  show "fst (matchComponentsFromAnalysis analysis) = [button_info, card_info, input_info]"
    by (rule default_result [OF none])
  show "fst (matchState analysis) = [''button'', ''card'', ''input'']"
    by (simp add: matchState_default [OF none])
  show "list_all (\<lambda>n. snd (matchState analysis) n = Some 5) (fst (matchState analysis))"
    by (rule default_priorities [OF none])
next
  assume some: "matchedPatterns analysis \<noteq> []"
  show "set (map componentName (fst (matchComponentsFromAnalysis analysis)))
        = (\<Union>p \<in> set (matchedPatterns analysis). set (components p))"
    by (rule matched_result(1) [OF some])
  show "distinct (map componentName (fst (matchComponentsFromAnalysis analysis)))"
    by (rule matched_result(2) [OF some])
  show "list_all (\<lambda>c. getComponentByName (componentName c) = Some c
                      \<and> snd (matchState analysis) (componentName c)
                          = Some (highestPriority analysis (componentName c)))
           (fst (matchComponentsFromAnalysis analysis))"
    by (rule matched_result(3) [OF some])
  show "sorted_wrt (\<lambda>a b. a \<ge> b)
           (map (\<lambda>c. highestPriority analysis (componentName c))
              (fst (matchComponentsFromAnalysis analysis)))"
    by (rule matched_result(4) [OF some])
qed

lemma no_pattern_in_xyz: "matchedPatterns ''xyz'' = []"
  by (simp add: matchedPatterns_def patternsMatching_def VISUAL_PATTERNS_def
        lower_simps)

lemma hero_pattern_in_Hero:
  "matchedPatterns ''Hero'' =
     [\<lparr>keywords_vp =
         [''hero'', ''banner'', ''jumbotron'', ''large heading'', ''main heading'',
          ''hero section'', ''landing header'', ''above the fold'', ''headline''],
       components =
         [''card'', ''button'', ''gradient-text'', ''glow-button'', ''gradient-button''],
       priority = 10\<rparr>]"
  by (simp add: matchedPatterns_def patternsMatching_def VISUAL_PATTERNS_def
        lower_simps)

theorem pattern_match_result_witness:
  "matchedPatterns ''xyz'' = []
   \<and> fst (matchComponentsFromAnalysis ''xyz'') = [button_info, card_info, input_info]
   \<and> matchedPatterns ''Hero'' \<noteq> []
   \<and> set (map componentName (fst (matchComponentsFromAnalysis ''Hero'')))
       = {''card'', ''button'', ''gradient-text'', ''glow-button'', ''gradient-button''}"
proof -
  have some: "matchedPatterns ''Hero'' \<noteq> []"
    by (simp add: hero_pattern_in_Hero)
  from pattern_match_result [of "''xyz''"] no_pattern_in_xyz
  have a: "fst (matchComponentsFromAnalysis ''xyz'') = [button_info, card_info, input_info]"
    by blast
  from pattern_match_result [of "''Hero''"] some
  have "set (map componentName (fst (matchComponentsFromAnalysis ''Hero'')))
          = (\<Union>p \<in> set (matchedPatterns ''Hero''). set (components p))"
    by blast
  then have b: "set (map componentName (fst (matchComponentsFromAnalysis ''Hero'')))
          = {''card'', ''button'', ''gradient-text'', ''glow-button'', ''gradient-button''}"
    by (simp add: hero_pattern_in_Hero)
  from no_pattern_in_xyz a some b show ?thesis by blast
qed


section \<open>Template conversation: five calls\<close>

lemma question_lookup:
  "map_of CONVERSATION_QUESTIONS 0 = None"
  "map_of CONVERSATION_QUESTIONS 1 = Some \<lparr>question = ''What is this landing page for?'',
          options = [''SaaS Product'', ''Mobile App'', ''Ecommerce Product'',
                     ''Personal Portfolio'', ''Event'', ''Other''],
          key = ''purpose''\<rparr>"
  "map_of CONVERSATION_QUESTIONS 2 = Some \<lparr>question = ''Who is your target audience?'',
          options = [''Customers'', ''Investors'', ''Partners'', ''Job Applicants'',
                     ''General Users''],
          key = ''targetAudience''\<rparr>"
  "map_of CONVERSATION_QUESTIONS 3 = Some \<lparr>question = ''What action do you want visitors to take?'',
          options = [''Sign up'', ''Request a demo'', ''Buy'', ''Subscribe to newsletter'',
                     ''Contact you''],
          key = ''desiredAction''\<rparr>"
  "map_of CONVERSATION_QUESTIONS 4 = Some \<lparr>question = ''What style or tone do you prefer?'',
          options = [''Professional'', ''Friendly'', ''Creative'', ''Minimalist''],
          key = ''style''\<rparr>"
  by (simp_all add: CONVERSATION_QUESTIONS_def)

lemma step0:
  "processConversationStep \<lparr>currentStep = 0, totalSteps = t, answers = [], nextQuestion = n\<rparr> a1
   = Inr (QuestionResult \<lparr>currentStep = 1, totalSteps = 4, answers = [],
            nextQuestion = Some ''What is this landing page for?''\<rparr>)"
  by (simp add: processConversationStep_def question_lookup)

lemma step1:
  "processConversationStep \<lparr>currentStep = 1, totalSteps = t, answers = [], nextQuestion = n\<rparr> a2
   = Inr (QuestionResult \<lparr>currentStep = 2, totalSteps = 4, answers = [(''purpose'', a2)],
            nextQuestion = Some ''Who is your target audience?''\<rparr>)"
  by (simp add: processConversationStep_def question_lookup)

lemma step2:
  "processConversationStep
     \<lparr>currentStep = 2, totalSteps = t, answers = [(''purpose'', a2)], nextQuestion = n\<rparr> a3
   = Inr (QuestionResult \<lparr>currentStep = 3, totalSteps = 4,
            answers = [(''purpose'', a2), (''targetAudience'', a3)],
            nextQuestion = Some ''What action do you want visitors to take?''\<rparr>)"
  by (simp add: processConversationStep_def question_lookup)

lemma step3:
  "processConversationStep
     \<lparr>currentStep = 3, totalSteps = t,
      answers = [(''purpose'', a2), (''targetAudience'', a3)], nextQuestion = n\<rparr> a4
   = Inr (QuestionResult \<lparr>currentStep = 4, totalSteps = 4,
            answers = [(''purpose'', a2), (''targetAudience'', a3), (''desiredAction'', a4)],
            nextQuestion = Some ''What style or tone do you prefer?''\<rparr>)"
  by (simp add: processConversationStep_def question_lookup)

lemma step4:
  "processConversationStep
     \<lparr>currentStep = 4, totalSteps = t,
      answers = [(''purpose'', a2), (''targetAudience'', a3), (''desiredAction'', a4)],
      nextQuestion = n\<rparr> a5
   = Inr (TemplateResult (generateTemplateFromAnswers
       \<lparr>purpose = a2, targetAudience = a3, desiredAction = a4, style = a5\<rparr>))"
  by (simp add: processConversationStep_def question_lookup orEmpty_def)

lemma five_calls:
  "runConversation \<lparr>currentStep = 0, totalSteps = t, answers = [], nextQuestion = n\<rparr>
     [a1, a2, a3, a4, a5]
   = [Inr (QuestionResult \<lparr>currentStep = 1, totalSteps = 4, answers = [],
             nextQuestion = Some ''What is this landing page for?''\<rparr>),
      Inr (QuestionResult \<lparr>currentStep = 2, totalSteps = 4, answers = [(''purpose'', a2)],
             nextQuestion = Some ''Who is your target audience?''\<rparr>),
      Inr (QuestionResult \<lparr>currentStep = 3, totalSteps = 4,
             answers = [(''purpose'', a2), (''targetAudience'', a3)],
             nextQuestion = Some ''What action do you want visitors to take?''\<rparr>),
      Inr (QuestionResult \<lparr>currentStep = 4, totalSteps = 4,
             answers = [(''purpose'', a2), (''targetAudience'', a3), (''desiredAction'', a4)],
             nextQuestion = Some ''What style or tone do you prefer?''\<rparr>),
      Inr (TemplateResult (generateTemplateFromAnswers
             \<lparr>purpose = a2, targetAudience = a3, desiredAction = a4, style = a5\<rparr>))]"
  by (simp add: step0 step1 step2 step3 step4)

lemma four_calls:
  "runConversation \<lparr>currentStep = 0, totalSteps = 4, answers = [], nextQuestion = None\<rparr>
     [''SaaS Product'', ''Customers'', ''Sign up'', ''Professional'']
   = [Inr (QuestionResult \<lparr>currentStep = 1, totalSteps = 4, answers = [],
             nextQuestion = Some ''What is this landing page for?''\<rparr>),
      Inr (QuestionResult \<lparr>currentStep = 2, totalSteps = 4, answers = [(''purpose'', ''Customers'')],
             nextQuestion = Some ''Who is your target audience?''\<rparr>),
      Inr (QuestionResult \<lparr>currentStep = 3, totalSteps = 4,
             answers = [(''purpose'', ''Customers''), (''targetAudience'', ''Sign up'')],
             nextQuestion = Some ''What action do you want visitors to take?''\<rparr>),
      Inr (QuestionResult \<lparr>currentStep = 4, totalSteps = 4,
             answers = [(''purpose'', ''Customers''), (''targetAudience'', ''Sign up''),
                        (''desiredAction'', ''Professional'')],
             nextQuestion = Some ''What style or tone do you prefer?''\<rparr>)]"
  by (simp add: step0 step1 step2 step3)

text \<open>
  C4 as stated fails: from \<open>currentStep\<close> 0 and no answers, four calls move
  \<open>currentStep\<close> through 1, 2, 3 and 4, and the fourth response is the question for the
  style, not the template. The first answer is stored nowhere, since step 0 has no
  question; the answers that follow are stored under \<open>purpose\<close>, \<open>targetAudience\<close> and
  \<open>desiredAction\<close>.
\<close>

theorem fourth_response_counterexample:
  "runConversation \<lparr>currentStep = 0, totalSteps = 4, answers = [], nextQuestion = None\<rparr>
     [''SaaS Product'', ''Customers'', ''Sign up'', ''Professional'']
   = [Inr (QuestionResult \<lparr>currentStep = 1, totalSteps = 4, answers = [],
             nextQuestion = Some ''What is this landing page for?''\<rparr>),
      Inr (QuestionResult \<lparr>currentStep = 2, totalSteps = 4, answers = [(''purpose'', ''Customers'')],
             nextQuestion = Some ''Who is your target audience?''\<rparr>),
      Inr (QuestionResult \<lparr>currentStep = 3, totalSteps = 4,
             answers = [(''purpose'', ''Customers''), (''targetAudience'', ''Sign up'')],
             nextQuestion = Some ''What action do you want visitors to take?''\<rparr>),
      Inr (QuestionResult \<lparr>currentStep = 4, totalSteps = 4,
             answers = [(''purpose'', ''Customers''), (''targetAudience'', ''Sign up''),
                        (''desiredAction'', ''Professional'')],
             nextQuestion = Some ''What style or tone do you prefer?''\<rparr>)]"
  by (rule four_calls)

text \<open>
  C4, amended: from \<open>currentStep\<close> 0 and no answers, sequential calls that carry the
  returned state forward move \<open>currentStep\<close> through 1, 2, 3 and 4, each of the first
  four responses being a question, and the fifth response is the rendered template, built
  from the second to fifth answers.
\<close>

theorem fifth_response_is_template:
  "runConversation \<lparr>currentStep = 0, totalSteps = t, answers = [], nextQuestion = n\<rparr>
     [a1, a2, a3, a4, a5]
   = [Inr (QuestionResult \<lparr>currentStep = 1, totalSteps = 4, answers = [],
             nextQuestion = Some ''What is this landing page for?''\<rparr>),
      Inr (QuestionResult \<lparr>currentStep = 2, totalSteps = 4, answers = [(''purpose'', a2)],
             nextQuestion = Some ''Who is your target audience?''\<rparr>),
      Inr (QuestionResult \<lparr>currentStep = 3, totalSteps = 4,
             answers = [(''purpose'', a2), (''targetAudience'', a3)],
             nextQuestion = Some ''What action do you want visitors to take?''\<rparr>),
      Inr (QuestionResult \<lparr>currentStep = 4, totalSteps = 4,
             answers = [(''purpose'', a2), (''targetAudience'', a3), (''desiredAction'', a4)],
             nextQuestion = Some ''What style or tone do you prefer?''\<rparr>),
      Inr (TemplateResult (generateTemplateFromAnswers
             \<lparr>purpose = a2, targetAudience = a3, desiredAction = a4, style = a5\<rparr>))]"
  by (rule five_calls)


end
